theory Spec2Isabelle
  imports Complex_Main
begin

text \<open>
  A model of the stores of the AI-Sales application (\<open>db.py\<close>: \<open>PurchaseDB\<close>,
  \<open>CustomerDB\<close>, \<open>ProductDB\<close>), of the part of \<open>config.py\<close> they read, and of the
  narrative of the daily report (\<open>llm_client.py\<close>, \<open>monitoring.py\<close>). A table is the
  list of its rows in rowid order; a method takes the store and returns the store that
  results, with an exception as a value of \<open>error\<close>; the clock and the remote service
  are arguments.
\<close>

section \<open>Python values and numeric coercion\<close>

text \<open>
  The numeric arguments of \<open>PurchaseDB.add_purchase\<close> arrive as arbitrary Python values:
  \<open>None\<close>, booleans, integers, floats or strings. Python's \<open>float\<close> type is read as
  \<open>real\<close> (no rounding, no \<open>inf\<close>/\<open>nan\<close>). What \<open>float(s)\<close> makes of a string is a
  parameter \<open>pf\<close> of the model: \<open>pf s = None\<close> stands for \<open>ValueError\<close>.
\<close>

datatype pyval = PyNone | PyBool bool | PyInt int | PyFloat real | PyStr string

datatype error = TypeError | ValueError | IntegrityError

type_synonym parse_float = "string \<Rightarrow> real option"

text \<open>Truth value of a Python object, as \<open>if quantity\<close> tests it.\<close>

fun truthy :: "pyval \<Rightarrow> bool" where
  "truthy PyNone = False"
| "truthy (PyBool b) = b"
| "truthy (PyInt i) = (i \<noteq> 0)"
| "truthy (PyFloat r) = (r \<noteq> 0)"
| "truthy (PyStr s) = (s \<noteq> [])"

text \<open>\<open>float(v)\<close>: \<open>TypeError\<close> on \<open>None\<close>, \<open>ValueError\<close> on a string that does not parse.\<close>

fun py_float :: "parse_float \<Rightarrow> pyval \<Rightarrow> error + real" where
  "py_float pf PyNone = Inl TypeError"
| "py_float pf (PyBool b) = Inr (if b then 1 else 0)"
| "py_float pf (PyInt i) = Inr (real_of_int i)"
| "py_float pf (PyFloat r) = Inr r"
| "py_float pf (PyStr s) = (case pf s of None \<Rightarrow> Inl ValueError | Some r \<Rightarrow> Inr r)"

text \<open>\<open>try: x = float(v)  except ValueError: x = d\<close>; any other exception propagates.\<close>

definition float_or :: "parse_float \<Rightarrow> pyval \<Rightarrow> real \<Rightarrow> error + real" where
  "float_or pf v d = (case py_float pf v of Inl ValueError \<Rightarrow> Inr d | r \<Rightarrow> r)"

definition ebind :: "error + 'a \<Rightarrow> ('a \<Rightarrow> error + 'b) \<Rightarrow> error + 'b" where
  "ebind m f = (case m of Inl e \<Rightarrow> Inl e | Inr x \<Rightarrow> f x)"

text \<open>
  A parser for plain signed decimal integers such as \<open>99\<close> or \<open>-3\<close>, the fragment of
  \<open>float\<close>'s string syntax that the concrete examples below use.
\<close>

definition digit_of :: "char \<Rightarrow> nat option" where
  "digit_of c = map_of (zip ''0123456789'' [0, 1, 2, 3, 4, 5, 6, 7, 8, 9]) c"

fun digits_value :: "nat \<Rightarrow> string \<Rightarrow> nat option" where
  "digits_value acc [] = Some acc"
| "digits_value acc (c # cs) =
     (case digit_of c of None \<Rightarrow> None | Some d \<Rightarrow> digits_value (10 * acc + d) cs)"

definition decimal_literal :: parse_float where
  "decimal_literal s =
     (case s of
        [] \<Rightarrow> None
      | c # cs \<Rightarrow>
          if c = CHR ''-'' then
            (if cs = [] then None else map_option (\<lambda>n. - real n) (digits_value 0 cs))
          else map_option real (digits_value 0 s))"

section \<open>The purchase ledger\<close>

subsection \<open>Rows and arguments\<close>

text \<open>
  A row of the \<open>purchases\<close> table. Columns declared \<open>NOT NULL\<close> hold a value, the others
  an option (\<open>None\<close> is SQL \<open>NULL\<close>). The timestamp text is kept as the calendar day
  and the second of the day it denotes; text that SQLite's \<open>date()\<close> cannot read is
  \<open>Unparsed\<close>.
\<close>

datatype stamp = Stamp (day: int) (second_of_day: nat) | Unparsed string

record purchase_row =
  purchase_id :: int
  timestamp :: stamp
  customer :: string
  customer_email :: "string option"
  product :: string
  amount :: real
  quantity :: "real option"
  unit_price :: "real option"
  subtotal :: "real option"
  discount :: "real option"
  tax :: "real option"
  total_col :: "real option"
  currency :: "string option"
  status :: string
  payment_status :: "string option"
  fulfillment_status :: "string option"
  payment_method :: "string option"
  channel :: "string option"
  source :: "string option"
  region :: "string option"
  sales_rep :: "string option"
  invoice_id :: "string option"
  tags :: "string option"
  notes_col :: "string option"

text \<open>
  The keyword arguments of \<open>add_purchase\<close>. The numeric ones are any Python value, as the
  method coerces them itself; the text ones are strings, and \<open>currency\<close> may be \<open>None\<close>.
\<close>

record purchase_args =
  a_customer :: string
  a_product :: string
  a_amount :: pyval
  a_status :: string
  a_customer_email :: string
  a_quantity :: pyval
  a_unit_price :: pyval
  a_discount :: pyval
  a_tax :: pyval
  a_total :: pyval
  a_currency :: "string option"
  a_payment_status :: string
  a_fulfillment_status :: string
  a_payment_method :: string
  a_channel :: string
  a_source :: string
  a_region :: string
  a_sales_rep :: string
  a_invoice_id :: string
  a_tags :: string
  a_notes :: string

text \<open>A call that supplies only the required arguments; the rest take the defaults
  of the signature.\<close>

definition default_args :: "string \<Rightarrow> string \<Rightarrow> pyval \<Rightarrow> purchase_args" where
  "default_args c p a =
     \<lparr> a_customer = c, a_product = p, a_amount = a, a_status = ''Completed'',
       a_customer_email = [], a_quantity = PyInt 1, a_unit_price = PyNone,
       a_discount = PyFloat 0, a_tax = PyFloat 0, a_total = PyNone, a_currency = None,
       a_payment_status = [], a_fulfillment_status = [], a_payment_method = [],
       a_channel = [], a_source = [], a_region = [], a_sales_rep = [],
       a_invoice_id = [], a_tags = [], a_notes = [] \<rparr>"

text \<open>The settings of \<open>Config\<close> that the stores and the report read.\<close>

record config =
  MAX_RECENT_PURCHASES :: int
  DEFAULT_CURRENCY :: string
  DAILY_SALES_TARGET :: int
  LLM_PROVIDER :: string
  API_KEY :: string
  LLM_ENDPOINT :: string
  LLM_MODEL :: string

subsection \<open>Coercion of the numeric arguments\<close>

text \<open>Lines 121--126 of \<open>db.py\<close>.\<close>

definition coerce_quantity :: "parse_float \<Rightarrow> pyval \<Rightarrow> error + real" where
  "coerce_quantity pf q =
     ebind (if truthy q then float_or pf q 1 else Inr 1)
       (\<lambda>v. Inr (if v \<le> 0 then 1 else v))"

text \<open>Lines 133--138: an omitted unit price is the (already coerced) amount.\<close>

definition coerce_unit_price :: "parse_float \<Rightarrow> pyval \<Rightarrow> real \<Rightarrow> error + real" where
  "coerce_unit_price pf u amt =
     float_or pf (if u = PyNone then PyFloat amt else u) 0"

text \<open>Lines 153--160.\<close>

definition coerce_total :: "parse_float \<Rightarrow> pyval \<Rightarrow> real \<Rightarrow> error + real" where
  "coerce_total pf t computed_total =
     ebind (float_or pf (if t = PyNone then PyFloat computed_total else t) computed_total)
       (\<lambda>v. Inr (if v < 0 then 0 else v))"

text \<open>
  The tuple bound to the \<open>INSERT\<close> statement, as a row whose identity the store has
  still to assign (\<open>purchase_id\<close> is a placeholder here). The \<open>amount\<close> column is
  bound to \<open>total\<close>.
\<close>

definition new_purchase :: "parse_float \<Rightarrow> config \<Rightarrow> stamp \<Rightarrow> purchase_args \<Rightarrow> error + purchase_row" where
  "new_purchase pf cfg ts a =
     ebind (coerce_quantity pf (a_quantity a)) (\<lambda>qty.
     ebind (float_or pf (a_amount a) 0) (\<lambda>amt.
     ebind (coerce_unit_price pf (a_unit_price a) amt) (\<lambda>price.
     ebind (float_or pf (a_discount a) 0) (\<lambda>disc.
     ebind (float_or pf (a_tax a) 0) (\<lambda>tx.
       let sub = max (qty * price) 0;
           computed_total = sub - max disc 0 + max tx 0
       in ebind (coerce_total pf (a_total a) computed_total) (\<lambda>tot.
       Inr \<lparr> purchase_id = 0, timestamp = ts, customer = a_customer a,
             customer_email = Some (a_customer_email a), product = a_product a,
             amount = tot, quantity = Some qty, unit_price = Some price,
             subtotal = Some sub, discount = Some disc, tax = Some tx,
             total_col = Some tot,
             currency = Some (case a_currency a of
                                None \<Rightarrow> DEFAULT_CURRENCY cfg
                              | Some c \<Rightarrow> if c = [] then DEFAULT_CURRENCY cfg else c),
             status = a_status a, payment_status = Some (a_payment_status a),
             fulfillment_status = Some (a_fulfillment_status a),
             payment_method = Some (a_payment_method a), channel = Some (a_channel a),
             source = Some (a_source a), region = Some (a_region a),
             sales_rep = Some (a_sales_rep a), invoice_id = Some (a_invoice_id a),
             tags = Some (a_tags a), notes_col = Some (a_notes a) \<rparr>))))))"

subsection \<open>The store: connections, transactions, insert and eviction\<close>

text \<open>
  The \<open>purchases\<close> table in rowid order, with the counter that \<open>AUTOINCREMENT\<close> keeps
  in \<open>sqlite_sequence\<close>: the largest identity ever handed out.
\<close>

record purchase_db =
  purchases :: "purchase_row list"
  purchases_seq :: int

text \<open>
  A connection of Python's \<open>sqlite3\<close> module: the first writing statement opens a
  transaction, whose effects stay \<open>pending\<close> and are seen by this connection only;
  \<open>commit\<close> publishes them. Every other connection reads \<open>committed\<close>.
\<close>

record 'db connection =
  committed :: 'db
  pending :: "'db option"

definition connect :: "'db \<Rightarrow> 'db connection" where
  "connect db = \<lparr> committed = db, pending = None \<rparr>"

definition current :: "'db connection \<Rightarrow> 'db" where
  "current c = (case pending c of None \<Rightarrow> committed c | Some w \<Rightarrow> w)"

definition execute :: "('db \<Rightarrow> 'db) \<Rightarrow> 'db connection \<Rightarrow> 'db connection" where
  "execute stmt c = c\<lparr> pending := Some (stmt (current c)) \<rparr>"

definition commit :: "'db connection \<Rightarrow> 'db connection" where
  "commit c = \<lparr> committed = current c, pending = None \<rparr>"

text \<open>The connection after each statement of a script, in order.\<close>

fun run_script :: "('c \<Rightarrow> 'c) list \<Rightarrow> 'c \<Rightarrow> 'c list" where
  "run_script [] c = []"
| "run_script (f # fs) c = f c # run_script fs (f c)"

text \<open>\<open>LIMIT n\<close>: a negative \<open>n\<close> is no limit at all.\<close>

definition sql_limit :: "int \<Rightarrow> 'a list \<Rightarrow> 'a list" where
  "sql_limit n xs = (if n < 0 then xs else take (nat n) xs)"

text \<open>The identity \<open>AUTOINCREMENT\<close> gives the next row: one more than the largest
  identity that is or ever was in the table.\<close>

definition next_id :: "purchase_db \<Rightarrow> int" where
  "next_id db = max (purchases_seq db) (foldr max (map purchase_id (purchases db)) 0) + 1"

definition insert_purchase :: "purchase_row \<Rightarrow> purchase_db \<Rightarrow> purchase_db" where
  "insert_purchase r db =
     \<lparr> purchases = purchases db @ [r\<lparr> purchase_id := next_id db \<rparr>],
       purchases_seq = next_id db \<rparr>"

text \<open>\<open>DELETE FROM purchases WHERE id NOT IN (SELECT id FROM purchases ORDER BY id DESC LIMIT ?)\<close>\<close>

definition evict :: "int \<Rightarrow> purchase_db \<Rightarrow> purchase_db" where
  "evict n db =
     (let keep = sql_limit n (rev (sort (map purchase_id (purchases db))))
      in db\<lparr> purchases := filter (\<lambda>r. purchase_id r \<in> set keep) (purchases db) \<rparr>)"

text \<open>The three calls on the connection, lines 165--211.\<close>

definition add_purchase_script ::
  "config \<Rightarrow> purchase_row \<Rightarrow> (purchase_db connection \<Rightarrow> purchase_db connection) list" where
  "add_purchase_script cfg r =
     [execute (insert_purchase r), execute (evict (MAX_RECENT_PURCHASES cfg)), commit]"

text \<open>
  \<open>add_purchase\<close>: an exception of the coercion leaves the store as it was; otherwise
  the result is what the connection has committed when the script is through.
\<close>

definition add_purchase ::
  "parse_float \<Rightarrow> config \<Rightarrow> stamp \<Rightarrow> purchase_args \<Rightarrow> purchase_db \<Rightarrow> error + purchase_db" where
  "add_purchase pf cfg ts a db =
     ebind (new_purchase pf cfg ts a)
       (\<lambda>r. Inr (committed (last (run_script (add_purchase_script cfg r) (connect db)))))"

text \<open>A sequence of calls, each with the clock reading at its time; a call that raises
  changes nothing and the next one goes on from the same store.\<close>

fun record_calls ::
  "parse_float \<Rightarrow> config \<Rightarrow> (stamp \<times> purchase_args) list \<Rightarrow> purchase_db \<Rightarrow> purchase_db" where
  "record_calls pf cfg [] db = db"
| "record_calls pf cfg ((ts, a) # cs) db =
     record_calls pf cfg cs
       (case add_purchase pf cfg ts a db of Inl e \<Rightarrow> db | Inr db' \<Rightarrow> db')"

text \<open>\<open>COALESCE(total, amount, 0)\<close>; \<open>amount\<close> is never \<open>NULL\<close>.\<close>

definition coalesce_total :: "purchase_row \<Rightarrow> real" where
  "coalesce_total r = (case total_col r of Some t \<Rightarrow> t | None \<Rightarrow> amount r)"

subsection \<open>Analytics: daily summary and revenue trend\<close>

text \<open>SQLite's \<open>date(timestamp)\<close>: the calendar day, or \<open>NULL\<close> for unreadable text.\<close>

fun sql_date :: "stamp \<Rightarrow> int option" where
  "sql_date (Stamp d s) = Some d"
| "sql_date (Unparsed t) = None"

text \<open>\<open>SUM\<close> and \<open>AVG\<close> over no rows are \<open>NULL\<close>, not zero and not a division.\<close>

definition sql_sum :: "real list \<Rightarrow> real option" where
  "sql_sum xs = (if xs = [] then None else Some (sum_list xs))"

definition sql_avg :: "real list \<Rightarrow> real option" where
  "sql_avg xs = (if xs = [] then None else Some (sum_list xs / real (length xs)))"

text \<open>\<open>float(x or 0)\<close> on a nullable number.\<close>

definition or_zero :: "real option \<Rightarrow> real" where
  "or_zero x = (case x of None \<Rightarrow> 0 | Some v \<Rightarrow> v)"

record summary =
  count :: int
  revenue :: real
  avg :: real

definition get_daily_summary :: "int \<Rightarrow> purchase_db \<Rightarrow> summary" where
  "get_daily_summary date_label db =
     (let rows = filter (\<lambda>r. sql_date (timestamp r) = Some date_label) (purchases db);
          vals = map coalesce_total rows
      in \<lparr> count = int (length rows), revenue = or_zero (sql_sum vals),
           avg = or_zero (sql_avg vals) \<rparr>)"

text \<open>
  \<open>get_sales_trend\<close>. The first argument is what \<open>date('now')\<close> yields inside SQLite,
  which is the current day in UTC; the stored timestamps come from \<open>datetime.now()\<close>,
  the local clock. The \<open>WHERE\<close> clause bounds the day from below only. Each entry is
  a pair of a day and its revenue.
\<close>

definition get_sales_trend :: "int \<Rightarrow> int \<Rightarrow> purchase_db \<Rightarrow> (int \<times> real) list" where
  "get_sales_trend utc_today days db =
     (if days \<le> 0 then []
      else
        let cutoff = utc_today - (days - 1);
            rows = filter (\<lambda>r. case sql_date (timestamp r) of
                                  None \<Rightarrow> False | Some d \<Rightarrow> cutoff \<le> d) (purchases db);
            groups = sort (remdups (List.map_filter (\<lambda>r. sql_date (timestamp r)) rows))
        in map (\<lambda>d. (d, or_zero (sql_sum (map coalesce_total
                      (filter (\<lambda>r. sql_date (timestamp r) = Some d) rows))))) groups)"

text \<open>
  The trend as the specification words it: one entry for each day of the trailing
  \<open>days\<close>-day window ending today that has a purchase, in day order, with the summed
  revenue of that day.
\<close>

definition trend_spec :: "int \<Rightarrow> int \<Rightarrow> purchase_db \<Rightarrow> (int \<times> real) list" where
  "trend_spec today days db =
     map (\<lambda>d. (d, sum_list (map coalesce_total
                  (filter (\<lambda>r. sql_date (timestamp r) = Some d) (purchases db)))))
       (filter (\<lambda>d. filter (\<lambda>r. sql_date (timestamp r) = Some d) (purchases db) \<noteq> [])
          [today - (days - 1) .. today])"

section \<open>The customer directory\<close>

text \<open>
  A row of the \<open>customers\<close> table; \<open>name\<close>, \<open>created_at\<close> and \<open>updated_at\<close> always
  hold text, every other column may be \<open>NULL\<close>.
\<close>

record customer_row =
  customer_id :: int
  c_name :: string
  c_email :: "string option"
  c_phone :: "string option"
  c_company :: "string option"
  c_industry :: "string option"
  c_segment :: "string option"
  c_status :: "string option"
  c_lead_source :: "string option"
  c_address_line1 :: "string option"
  c_address_line2 :: "string option"
  c_city :: "string option"
  c_state :: "string option"
  c_country :: "string option"
  c_postal_code :: "string option"
  c_notes :: "string option"
  c_last_contact_at :: "string option"
  c_created_at :: string
  c_updated_at :: string

text \<open>The arguments of \<open>upsert_customer\<close>; \<open>None\<close> is Python's \<open>None\<close>.\<close>

record customer_args =
  u_name :: "string option"
  u_email :: "string option"
  u_phone :: "string option"
  u_company :: "string option"
  u_industry :: "string option"
  u_segment :: "string option"
  u_status :: "string option"
  u_lead_source :: "string option"
  u_address_line1 :: "string option"
  u_address_line2 :: "string option"
  u_city :: "string option"
  u_state :: "string option"
  u_country :: "string option"
  u_postal_code :: "string option"
  u_notes :: "string option"
  u_last_contact_at :: "string option"

record customer_db =
  customers :: "customer_row list"
  customers_seq :: int

text \<open>Whitespace as \<open>str.strip()\<close> sees it, on ASCII text.\<close>

definition py_isspace :: "char \<Rightarrow> bool" where
  "py_isspace c = (c \<in> set [CHR 0x09, CHR 0x0A, CHR 0x0B, CHR 0x0C, CHR 0x0D,
                              CHR 0x1C, CHR 0x1D, CHR 0x1E, CHR 0x1F, CHR '' ''])"

definition strip :: "string \<Rightarrow> string" where
  "strip s = rev (dropWhile py_isspace (rev (dropWhile py_isspace s)))"

text \<open>\<open>(x or "").strip()\<close>\<close>

definition trim :: "string option \<Rightarrow> string" where
  "trim x = strip (case x of None \<Rightarrow> [] | Some s \<Rightarrow> s)"

text \<open>\<open>COALESCE(NULLIF(?, ''), column)\<close>\<close>

definition coalesce_nullif :: "string \<Rightarrow> string option \<Rightarrow> string option" where
  "coalesce_nullif incoming stored = (if incoming = [] then stored else Some incoming)"

text \<open>The \<open>SET\<close> clause of the \<open>UPDATE\<close>, lines 509--551.\<close>

definition merge_customer :: "string \<Rightarrow> customer_args \<Rightarrow> customer_row \<Rightarrow> customer_row" where
  "merge_customer now a r =
     r\<lparr> c_name := trim (u_name a),
       c_email := coalesce_nullif (trim (u_email a)) (c_email r),
       c_phone := coalesce_nullif (trim (u_phone a)) (c_phone r),
       c_company := coalesce_nullif (trim (u_company a)) (c_company r),
       c_industry := coalesce_nullif (trim (u_industry a)) (c_industry r),
       c_segment := coalesce_nullif (trim (u_segment a)) (c_segment r),
       c_status := coalesce_nullif (trim (u_status a)) (c_status r),
       c_lead_source := coalesce_nullif (trim (u_lead_source a)) (c_lead_source r),
       c_address_line1 := coalesce_nullif (trim (u_address_line1 a)) (c_address_line1 r),
       c_address_line2 := coalesce_nullif (trim (u_address_line2 a)) (c_address_line2 r),
       c_city := coalesce_nullif (trim (u_city a)) (c_city r),
       c_state := coalesce_nullif (trim (u_state a)) (c_state r),
       c_country := coalesce_nullif (trim (u_country a)) (c_country r),
       c_postal_code := coalesce_nullif (trim (u_postal_code a)) (c_postal_code r),
       c_notes := coalesce_nullif (trim (u_notes a)) (c_notes r),
       c_last_contact_at := coalesce_nullif (trim (u_last_contact_at a)) (c_last_contact_at r),
       c_updated_at := now \<rparr>"

text \<open>The two lookups, lines 497--505: first row (in rowid order) with that email,
  then first row with that name.\<close>

definition find_customer :: "string \<Rightarrow> string \<Rightarrow> customer_row list \<Rightarrow> int option" where
  "find_customer name email rows =
     (let row = (if email \<noteq> [] then find (\<lambda>r. c_email r = Some email) rows else None);
          row = (case row of None \<Rightarrow> find (\<lambda>r. c_name r = name) rows | Some r \<Rightarrow> Some r)
      in map_option customer_id row)"

definition next_customer_id :: "customer_db \<Rightarrow> int" where
  "next_customer_id db =
     max (customers_seq db) (foldr max (map customer_id (customers db)) 0) + 1"

text \<open>The \<open>INSERT\<close>, lines 555--584; \<open>last_contact_at\<close> falls back to \<open>now\<close>.\<close>

definition insert_customer :: "string \<Rightarrow> customer_args \<Rightarrow> customer_db \<Rightarrow> customer_db" where
  "insert_customer now a db =
     \<lparr> customers = customers db @
       [\<lparr> customer_id = next_customer_id db, c_name = trim (u_name a),
       c_email = Some (trim (u_email a)),
       c_phone = Some (trim (u_phone a)),
       c_company = Some (trim (u_company a)),
       c_industry = Some (trim (u_industry a)),
       c_segment = Some (trim (u_segment a)),
       c_status = Some (trim (u_status a)),
       c_lead_source = Some (trim (u_lead_source a)),
       c_address_line1 = Some (trim (u_address_line1 a)),
       c_address_line2 = Some (trim (u_address_line2 a)),
       c_city = Some (trim (u_city a)),
       c_state = Some (trim (u_state a)),
       c_country = Some (trim (u_country a)),
       c_postal_code = Some (trim (u_postal_code a)),
       c_notes = Some (trim (u_notes a)),
       c_last_contact_at =
         Some (if trim (u_last_contact_at a) = [] then now else trim (u_last_contact_at a)),
       c_created_at = now, c_updated_at = now \<rparr>],
       customers_seq = next_customer_id db \<rparr>"

text \<open>\<open>upsert_customer\<close>: the returned identity (or \<open>None\<close>) and the store afterwards.\<close>

definition upsert_customer ::
  "string \<Rightarrow> customer_args \<Rightarrow> customer_db \<Rightarrow> int option \<times> customer_db" where
  "upsert_customer now a db =
     (let name = trim (u_name a); email = trim (u_email a)
      in if name = [] then (None, db)
         else case find_customer name email (customers db) of
                Some cid \<Rightarrow>
                  (Some cid,
                   db\<lparr> customers :=
                     map (\<lambda>r. if customer_id r = cid then merge_customer now a r else r)
                       (customers db) \<rparr>)
              | None \<Rightarrow> (Some (next_customer_id db), insert_customer now a db))"

section \<open>The product catalog\<close>

text \<open>
  A value as SQLite stores it. The \<open>products\<close> columns take whatever value a statement
  binds, so each column of a row holds an \<open>sqlval\<close>; the value is kept as bound.
\<close>

datatype sqlval = SqlNull | SqlInt int | SqlReal real | SqlText string

record product_row =
  product_id :: int
  p_name :: sqlval
  p_sku :: sqlval
  p_category :: sqlval
  p_price :: sqlval
  p_cost :: sqlval
  p_tax_rate :: sqlval
  p_unit :: sqlval
  p_description :: sqlval
  p_features :: sqlval
  p_best_for :: sqlval
  p_active :: sqlval
  p_created_at :: sqlval
  p_updated_at :: sqlval

record product_db =
  products :: "product_row list"
  products_seq :: int

definition next_product_id :: "product_db \<Rightarrow> int" where
  "next_product_id db =
     max (products_seq db) (foldr max (map product_id (products db)) 0) + 1"

definition insert_product :: "product_row \<Rightarrow> product_db \<Rightarrow> product_db" where
  "insert_product r db =
     \<lparr> products = products db @ [r\<lparr> product_id := next_product_id db \<rparr>],
       products_seq = next_product_id db \<rparr>"

subsection \<open>Seeding\<close>

text \<open>
  The products seed file: absent (\<open>None\<close>), or present with the rows that
  \<open>csv.DictReader\<close> reads from it, or present but failing to open or decode.
\<close>

datatype csv_file = Rows "(string \<times> string) list list" | Unreadable

text \<open>The rows \<open>ensure_data_files\<close> writes when the file is missing (\<open>config.py\<close>, 75--94).\<close>

definition sample_csv_rows :: "(string \<times> string) list list" where
  "sample_csv_rows =
     [[(''name'', ''CRM Pro''), (''price'', ''99''),
       (''features'', ''Contact management, email tracking, basic reporting''),
       (''best_for'', ''Small teams'')],
      [(''name'', ''Analytics Suite''), (''price'', ''149''),
       (''features'', ''Dashboards, predictive insights, custom reports''),
       (''best_for'', ''Data teams'')],
      [(''name'', ''Marketing Tool''), (''price'', ''79''),
       (''features'', ''Email campaigns, social scheduling, A/B testing''),
       (''best_for'', ''Marketing teams'')]]"

definition ensure_data_files :: "csv_file option \<Rightarrow> csv_file option" where
  "ensure_data_files products_file =
     (case products_file of None \<Rightarrow> Some (Rows sample_csv_rows) | Some f \<Rightarrow> Some f)"

text \<open>\<open>p.get(k1) or p.get(k2) or ""\<close>\<close>

definition get_either :: "(string \<times> string) list \<Rightarrow> string \<Rightarrow> string \<Rightarrow> string" where
  "get_either p k1 k2 =
     (case map_of p k1 of
        Some v \<Rightarrow> if v \<noteq> [] then v else (case map_of p k2 of Some w \<Rightarrow> w | None \<Rightarrow> [])
      | None \<Rightarrow> (case map_of p k2 of Some w \<Rightarrow> w | None \<Rightarrow> []))"

text \<open>The row both seeding loops insert (\<open>active\<close> is the literal 1).\<close>

definition seed_row ::
  "string \<Rightarrow> string \<Rightarrow> string \<Rightarrow> string \<Rightarrow> sqlval \<Rightarrow> string \<Rightarrow> string \<Rightarrow> product_row" where
  "seed_row now name sku category price features best_for =
     \<lparr> product_id = 0, p_name = SqlText name, p_sku = SqlText sku,
       p_category = SqlText category, p_price = price, p_cost = SqlReal 0,
       p_tax_rate = SqlReal 0, p_unit = SqlText [], p_description = SqlText [],
       p_features = SqlText features, p_best_for = SqlText best_for,
       p_active = SqlInt 1, p_created_at = SqlText now, p_updated_at = SqlText now \<rparr>"

text \<open>
  The loop over the file's rows, lines 741--771: a row without a name is skipped, and
  the first price that \<open>float\<close> rejects ends the loop through the \<open>except\<close> clause,
  with the rows inserted so far kept.
\<close>

fun seed_from_csv ::
  "parse_float \<Rightarrow> string \<Rightarrow> (string \<times> string) list list \<Rightarrow> product_db \<times> bool \<Rightarrow> product_db \<times> bool" where
  "seed_from_csv pf now [] (db, seeded) = (db, seeded)"
| "seed_from_csv pf now (p # ps) (db, seeded) =
     (let name = strip (get_either p ''name'' ''Product_Name'')
      in if name = [] then seed_from_csv pf now ps (db, seeded)
         else
           let price = get_either p ''price'' ''Price''
           in case py_float pf (if price = [] then PyInt 0 else PyStr price) of
                Inl e \<Rightarrow> (db, seeded)
              | Inr v \<Rightarrow>
                  seed_from_csv pf now ps
                    (insert_product
                       (seed_row now name [] [] (SqlReal v)
                          (get_either p ''features'' ''Features'')
                          (get_either p ''best_for'' ''Best_For'')) db, True))"

text \<open>The built-in sample set, lines 776--801.\<close>

definition samples :: "string \<Rightarrow> product_row list" where
  "samples now =
     [seed_row now ''CRM Pro'' ''CRM-001'' ''CRM'' (SqlInt 99)
        ''Contact management, email tracking, basic reporting'' ''Small teams'',
      seed_row now ''Analytics Suite'' ''ANL-101'' ''Analytics'' (SqlInt 149)
        ''Dashboards, predictive insights, custom reports'' ''Data teams'',
      seed_row now ''Marketing Tool'' ''MKT-201'' ''Marketing'' (SqlInt 79)
        ''Email campaigns, social scheduling, A/B testing'' ''Marketing teams'']"

definition seed_if_empty ::
  "parse_float \<Rightarrow> string \<Rightarrow> csv_file option \<Rightarrow> product_db \<Rightarrow> product_db" where
  "seed_if_empty pf now products_file db =
     (if length (products db) > 0 then db
      else
        let (db1, seeded) =
              (case products_file of
                 Some (Rows rows) \<Rightarrow> seed_from_csv pf now rows (db, False)
               | Some Unreadable \<Rightarrow> (db, False)
               | None \<Rightarrow> (db, False))
        in if \<not> seeded then foldl (\<lambda>d r. insert_product r d) db1 (samples now) else db1)"

text \<open>\<open>ProductDB.__init__\<close>: \<open>ensure_data_files\<close> runs first (in \<open>DBBase.__init__\<close>),
  then the seeding; the result is the seed file and the table afterwards.\<close>

definition ProductDB_init ::
  "parse_float \<Rightarrow> string \<Rightarrow> csv_file option \<Rightarrow> product_db \<Rightarrow> csv_file option \<times> product_db" where
  "ProductDB_init pf now products_file db =
     (let file' = ensure_data_files products_file
      in (file', seed_if_empty pf now file' db))"

subsection \<open>Update\<close>

definition allowed :: "string list" where
  "allowed = [''name'', ''sku'', ''category'', ''price'', ''cost'', ''tax_rate'', ''unit'', ''description'', ''features'', ''best_for'', ''active'']"

text \<open>The assignment \<open>column = ?\<close> of the \<open>SET\<close> clause.\<close>

definition set_col :: "string \<times> sqlval \<Rightarrow> product_row \<Rightarrow> product_row" where
  "set_col kv r =
     (let k = fst kv; v = snd kv in
      if k = ''name'' then r\<lparr> p_name := v \<rparr>
      else if k = ''sku'' then r\<lparr> p_sku := v \<rparr>
      else if k = ''category'' then r\<lparr> p_category := v \<rparr>
      else if k = ''price'' then r\<lparr> p_price := v \<rparr>
      else if k = ''cost'' then r\<lparr> p_cost := v \<rparr>
      else if k = ''tax_rate'' then r\<lparr> p_tax_rate := v \<rparr>
      else if k = ''unit'' then r\<lparr> p_unit := v \<rparr>
      else if k = ''description'' then r\<lparr> p_description := v \<rparr>
      else if k = ''features'' then r\<lparr> p_features := v \<rparr>
      else if k = ''best_for'' then r\<lparr> p_best_for := v \<rparr>
      else if k = ''active'' then r\<lparr> p_active := v \<rparr>
      else if k = ''updated_at'' then r\<lparr> p_updated_at := v \<rparr>
      else r)"

text \<open>The recognized columns that the table declares \<open>NOT NULL\<close>, lines 688--703.\<close>

definition not_null_columns :: "string list" where
  "not_null_columns = [''name'', ''price'', ''active'']"

text \<open>
  \<open>update_product\<close>. The keyword mapping \<open>**fields\<close> is a list of pairs in the order
  given. The outcome is the returned boolean, or the integrity error SQLite raises when
  the statement would put \<open>NULL\<close> into a \<open>NOT NULL\<close> column of a row it touches; the
  statement then has no effect.
\<close>

definition update_product ::
  "int \<Rightarrow> (string \<times> sqlval) list \<Rightarrow> string \<Rightarrow> product_db \<Rightarrow> (error + bool) \<times> product_db" where
  "update_product pid field_map now db =
     (let updates = filter (\<lambda>kv. fst kv \<in> set allowed) field_map
      in if updates = [] then (Inr False, db)
         else
           let assignments = updates @ [(''updated_at'', SqlText now)]
           in if list_ex (\<lambda>r. product_id r = pid) (products db)
                 \<and> list_ex (\<lambda>kv. fst kv \<in> set not_null_columns \<and> snd kv = SqlNull) updates
              then (Inl IntegrityError, db)
              else (Inr True,
                    db\<lparr> products :=
                      map (\<lambda>r. if product_id r = pid then fold set_col assignments r else r)
                        (products db) \<rparr>))"

text \<open>The value a row holds in the column of a given name (\<open>NULL\<close> for no such column).\<close>

definition get_col :: "string \<Rightarrow> product_row \<Rightarrow> sqlval" where
  "get_col k r =
     (if k = ''name'' then p_name r
      else if k = ''sku'' then p_sku r
      else if k = ''category'' then p_category r
      else if k = ''price'' then p_price r
      else if k = ''cost'' then p_cost r
      else if k = ''tax_rate'' then p_tax_rate r
      else if k = ''unit'' then p_unit r
      else if k = ''description'' then p_description r
      else if k = ''features'' then p_features r
      else if k = ''best_for'' then p_best_for r
      else if k = ''active'' then p_active r
      else if k = ''created_at'' then p_created_at r
      else if k = ''updated_at'' then p_updated_at r
      else SqlNull)"

section \<open>Reporting: the narrative and its fallback\<close>

record llm_client =
  provider :: string
  last_error :: string
  enabled :: bool

definition is_enabled :: "config \<Rightarrow> string \<Rightarrow> bool" where
  "is_enabled cfg prov =
     (if prov = ''none'' then False
      else if prov = ''openai_compatible''
        then API_KEY cfg \<noteq> [] \<and> LLM_ENDPOINT cfg \<noteq> [] \<and> LLM_MODEL cfg \<noteq> []
      else False)"

definition LLMClient_init :: "config \<Rightarrow> llm_client" where
  "LLMClient_init cfg =
     \<lparr> provider = LLM_PROVIDER cfg, last_error = [],
       enabled = is_enabled cfg (LLM_PROVIDER cfg) \<rparr>"

text \<open>
  What the HTTP request of \<open>complete\<close> comes to: an exception anywhere in the \<open>try\<close>
  block (with its message), a reply without choices, or the content of the first
  choice's message. The remote service is a function of the two prompts.
\<close>

datatype http_reply = RequestFailed string | NoChoices | Content string

type_synonym service = "string \<Rightarrow> string \<Rightarrow> http_reply"

definition complete_llm ::
  "service \<Rightarrow> llm_client \<Rightarrow> string \<Rightarrow> string \<Rightarrow> string option \<times> llm_client" where
  "complete_llm post llm system_prompt user_prompt =
     (if \<not> enabled llm then (None, llm)
      else if provider llm = ''openai_compatible'' then
        (case post system_prompt user_prompt of
           RequestFailed msg \<Rightarrow> (None, llm\<lparr> last_error := msg \<rparr>)
         | NoChoices \<Rightarrow> (None, llm)
         | Content c \<Rightarrow> (if strip c \<noteq> [] then Some (strip c) else None, llm))
      else (None, llm))"

definition below_target_text :: string where
  "below_target_text = ''Sales are below target. Consider follow-ups on warm leads.''"

definition on_track_text :: string where
  "on_track_text = ''Sales are on track. Keep momentum with demos and follow-ups.''"

definition system_prompt_text :: string where
  "system_prompt_text =
     ''You are a sales analytics assistant. Provide a short summary with '' @
     ''trends and 1-2 recommendations.''"

text \<open>
  The text \<open>generate_daily_report\<close> prints under ``Summary:'', lines 135--143 of
  \<open>monitoring.py\<close>, from today's count and the prompt built from the figures.
\<close>

definition report_narrative :: "service \<Rightarrow> config \<Rightarrow> llm_client \<Rightarrow> int \<Rightarrow> string \<Rightarrow> string" where
  "report_narrative post cfg llm cnt summary_text =
     (case fst (complete_llm post llm system_prompt_text summary_text) of
        Some ai_summary \<Rightarrow>
          if ai_summary \<noteq> [] then ai_summary
          else if cnt < DAILY_SALES_TARGET cfg then below_target_text else on_track_text
      | None \<Rightarrow>
          if cnt < DAILY_SALES_TARGET cfg then below_target_text else on_track_text)"

section \<open>Concrete settings for the examples\<close>

text \<open>\<open>Config\<close> with no environment variable set.\<close>

definition default_config :: config where
  "default_config =
     \<lparr> MAX_RECENT_PURCHASES = 10, DEFAULT_CURRENCY = ''USD'', DAILY_SALES_TARGET = 10,
       LLM_PROVIDER = ''none'', API_KEY = [], LLM_ENDPOINT = [], LLM_MODEL = [] \<rparr>"

definition empty_ledger :: purchase_db where
  "empty_ledger = \<lparr> purchases = [], purchases_seq = 0 \<rparr>"

text \<open>A ledger that retains two purchases.\<close>

definition small_config :: config where
  "small_config = default_config\<lparr> MAX_RECENT_PURCHASES := 2 \<rparr>"

text \<open>The same ledger with every stored timestamp rewritten by \<open>g\<close>.\<close>

definition restamp :: "(stamp \<Rightarrow> stamp) \<Rightarrow> purchase_db \<Rightarrow> purchase_db" where
  "restamp g db =
     db\<lparr> purchases := map (\<lambda>r. r\<lparr> timestamp := g (timestamp r) \<rparr>) (purchases db) \<rparr>"

text \<open>The catalog after \<open>ProductDB()\<close> on a fresh installation.\<close>

definition fresh_catalog :: product_db where
  "fresh_catalog =
     snd (ProductDB_init decimal_literal ''2024-01-01 09:00:00'' None
            \<lparr> products = [], products_seq = 0 \<rparr>)"

text \<open>A call of \<open>upsert_customer\<close> with a name, an email and a phone number, and a
  directory of two customers built by two such calls.\<close>

definition upsert_args :: "string \<Rightarrow> string \<Rightarrow> string \<Rightarrow> customer_args" where
  "upsert_args name email phone =
     \<lparr> u_name = Some name, u_email = Some email, u_phone = Some phone,
       u_company = Some [], u_industry = Some [], u_segment = Some [], u_status = Some [], u_lead_source = Some [], u_address_line1 = Some [], u_address_line2 = Some [], u_city = Some [], u_state = Some [], u_country = Some [], u_postal_code = Some [], u_notes = Some [], u_last_contact_at = Some [] \<rparr>"

definition two_customers :: customer_db where
  "two_customers =
     snd (upsert_customer ''2024-01-02 09:00:00'' (upsert_args ''Bob'' ''bob@example.com'' ''555-0101'')
       (snd (upsert_customer ''2024-01-01 09:00:00'' (upsert_args ''Ann'' ''ann@example.com'' [])
          \<lparr> customers = [], customers_seq = 0 \<rparr>)))"

text \<open>
  A ledger with a sale on day 94 at 10:00 and a sale on day 100 at 20:00, both by the
  local clock that \<open>add_purchase\<close> reads.
\<close>

definition evening_ledger :: purchase_db where
  "evening_ledger =
     record_calls decimal_literal default_config
       [(Stamp 94 36000, default_args ''Ann'' ''CRM Pro'' (PyInt 99)),
        (Stamp 100 72000, default_args ''Bob'' ''Marketing Tool'' (PyInt 79))] empty_ledger"

section \<open>Properties of the purchase ledger\<close>

subsection \<open>Auxiliary facts about coercion and the insert\<close>

lemma ebind_Inr_iff: "ebind m f = Inr y \<longleftrightarrow> (\<exists>x. m = Inr x \<and> f x = Inr y)"
  by (cases m) (simp_all add: ebind_def)

lemma new_purchase_InrD:
  assumes "new_purchase pf cfg ts a = Inr r"
  obtains qty amt price disc tx tot where
    "coerce_quantity pf (a_quantity a) = Inr qty"
    "float_or pf (a_amount a) 0 = Inr amt"
    "coerce_unit_price pf (a_unit_price a) amt = Inr price"
    "float_or pf (a_discount a) 0 = Inr disc"
    "float_or pf (a_tax a) 0 = Inr tx"
    "coerce_total pf (a_total a) (max (qty * price) 0 - max disc 0 + max tx 0) = Inr tot"
    "quantity r = Some qty" "unit_price r = Some price" "subtotal r = Some (max (qty * price) 0)"
    "discount r = Some disc" "tax r = Some tx" "total_col r = Some tot" "amount r = tot"
  using assms unfolding new_purchase_def ebind_Inr_iff Let_def
  by (elim exE conjE) (auto)

lemma coerce_total_None: "coerce_total pf PyNone c = Inr (max c 0)"
  by (simp add: coerce_total_def float_or_def ebind_def max_def)

lemma coerce_total_negative:
  "py_float pf t = Inr v \<Longrightarrow> v < 0 \<Longrightarrow> coerce_total pf t c = Inr 0"
  by (cases t) (auto simp add: coerce_total_def float_or_def ebind_def)

lemma add_purchase_run:
  "committed (last (run_script (add_purchase_script cfg r) (connect db)))
     = evict (MAX_RECENT_PURCHASES cfg) (insert_purchase r db)"
  by (simp add: add_purchase_script_def connect_def execute_def commit_def current_def)

lemma add_purchase_Inr_iff:
  "add_purchase pf cfg ts a db = Inr db' \<longleftrightarrow>
     (\<exists>r. new_purchase pf cfg ts a = Inr r
          \<and> db' = evict (MAX_RECENT_PURCHASES cfg) (insert_purchase r db))"
  by (auto simp: add_purchase_def ebind_Inr_iff add_purchase_run)

lemma purchases_insert [simp]:
  "purchases (insert_purchase r db) = purchases db @ [r\<lparr> purchase_id := next_id db \<rparr>]"
  by (simp add: insert_purchase_def)

lemma purchases_evict:
  "purchases (evict n db) =
     filter (\<lambda>r. purchase_id r \<in> set (sql_limit n (rev (sort (map purchase_id (purchases db))))))
       (purchases db)"
  by (simp add: evict_def)

lemma set_purchases_evict: "set (purchases (evict n db)) \<subseteq> set (purchases db)"
  by (auto simp: purchases_evict)

lemma float_or_total: "v \<noteq> PyNone \<Longrightarrow> \<exists>x. float_or pf v d = Inr x"
proof (cases v)
  case (PyStr s)
  then show ?thesis by (cases "pf s") (simp_all add: float_or_def)
qed (simp_all add: float_or_def)

lemma coerce_quantity_total: "\<exists>x. coerce_quantity pf q = Inr x"
proof (cases "truthy q")
  case True
  then have "q \<noteq> PyNone" by auto
  then obtain x where "float_or pf q 1 = Inr x" using float_or_total by blast
  then show ?thesis using True by (simp add: coerce_quantity_def ebind_def)
next
  case False
  then show ?thesis by (simp add: coerce_quantity_def ebind_def)
qed

lemma float_or_defaulted: "\<exists>x. float_or pf (if t = PyNone then PyFloat c else t) d = Inr x"
  by (rule float_or_total) simp

lemma coerce_total_total: "\<exists>x. coerce_total pf t c = Inr x"
proof -
  obtain x where "float_or pf (if t = PyNone then PyFloat c else t) c = Inr x"
    using float_or_defaulted by blast
  then show ?thesis by (simp add: coerce_total_def ebind_def)
qed

lemma new_purchase_succeeds:
  assumes "a_amount a \<noteq> PyNone" "a_discount a \<noteq> PyNone" "a_tax a \<noteq> PyNone"
  shows "\<exists>r. new_purchase pf cfg ts a = Inr r"
proof -
  obtain q where q: "coerce_quantity pf (a_quantity a) = Inr q"
    using coerce_quantity_total by blast
  obtain amt where amt: "float_or pf (a_amount a) 0 = Inr amt"
    using float_or_total assms(1) by blast
  obtain p where p: "coerce_unit_price pf (a_unit_price a) amt = Inr p"
    unfolding coerce_unit_price_def using float_or_defaulted by blast
  obtain d where d: "float_or pf (a_discount a) 0 = Inr d"
    using float_or_total assms(2) by blast
  obtain t where t: "float_or pf (a_tax a) 0 = Inr t"
    using float_or_total assms(3) by blast
  obtain tot where tot: "coerce_total pf (a_total a) (max (q * p) 0 - max d 0 + max t 0) = Inr tot"
    using coerce_total_total by blast
  show ?thesis
    by (simp add: new_purchase_def ebind_def q amt p d t tot)
qed

lemmas ledger_eval = add_purchase_def new_purchase_def add_purchase_script_def ebind_def
  coerce_quantity_def float_or_def coerce_unit_price_def coerce_total_def
  default_args_def default_config_def small_config_def empty_ledger_def connect_def
  execute_def commit_def current_def insert_purchase_def evict_def sql_limit_def
  next_id_def decimal_literal_def digit_of_def

subsection \<open>Stored total\<close>

text \<open>
  Claim C2, as the code has it. For every call that does not raise, the row it writes
  holds \<open>subtotal = max (quantity * unit_price) 0\<close>; when \<open>total\<close> is not supplied the
  stored total is \<open>subtotal - max discount 0 + max tax 0\<close>, clamped at zero from below,
  where \<open>discount\<close> and \<open>tax\<close> are the stored (unclamped) columns; and when an explicit
  total is supplied that \<open>float\<close> reads as a negative number, the stored total is 0.
\<close>

theorem C2_total_amended:
  assumes "new_purchase pf cfg ts a = Inr r"
  shows "\<exists>q p d t. quantity r = Some q \<and> unit_price r = Some p \<and> discount r = Some d
           \<and> tax r = Some t \<and> subtotal r = Some (max (q * p) 0)
           \<and> (a_total a = PyNone \<longrightarrow>
                total_col r = Some (max (max (q * p) 0 - max d 0 + max t 0) 0))
           \<and> (\<forall>v. py_float pf (a_total a) = Inr v \<and> v < 0 \<longrightarrow> total_col r = Some 0)"
proof -
  from assms obtain qty price disc tx tot where h:
    "coerce_total pf (a_total a) (max (qty * price) 0 - max disc 0 + max tx 0) = Inr tot"
    "quantity r = Some qty" "unit_price r = Some price" "subtotal r = Some (max (qty * price) 0)"
    "discount r = Some disc" "tax r = Some tx" "total_col r = Some tot"
    by (rule new_purchase_InrD)
  have 1: "a_total a = PyNone \<Longrightarrow> tot = max (max (qty * price) 0 - max disc 0 + max tx 0) 0"
    using h(1) by (simp add: coerce_total_None)
  have 2: "\<And>v. py_float pf (a_total a) = Inr v \<Longrightarrow> v < 0 \<Longrightarrow> tot = 0"
    using h(1) by (simp add: coerce_total_negative)
  show ?thesis
    apply (rule exI[of _ qty], rule exI[of _ price], rule exI[of _ disc], rule exI[of _ tx])
    using h(2-) 1 2 by simp
qed

theorem C2_total_amended_witness:
  "(\<exists>r. new_purchase decimal_literal default_config (Stamp 0 0)
          ((default_args ''Ann'' ''CRM Pro'' (PyInt 10))\<lparr> a_discount := PyInt 3, a_tax := PyInt 5 \<rparr>) = Inr r
        \<and> total_col r = Some 12)
 \<and> (\<exists>r. new_purchase decimal_literal default_config (Stamp 0 0)
          ((default_args ''Ann'' ''CRM Pro'' (PyInt 10))\<lparr> a_total := PyStr ''-5'' \<rparr>) = Inr r
        \<and> py_float decimal_literal (PyStr ''-5'') = Inr (- 5) \<and> total_col r = Some 0)"
proof -
  let ?n1 = "new_purchase decimal_literal default_config (Stamp 0 0)
          ((default_args ''Ann'' ''CRM Pro'' (PyInt 10))\<lparr> a_discount := PyInt 3, a_tax := PyInt 5 \<rparr>)"
  let ?n2 = "new_purchase decimal_literal default_config (Stamp 0 0)
          ((default_args ''Ann'' ''CRM Pro'' (PyInt 10))\<lparr> a_total := PyStr ''-5'' \<rparr>)"
  have e1: "?n1 = Inr (projr ?n1)" by (simp add: ledger_eval)
  have e2: "?n2 = Inr (projr ?n2)" by (simp add: ledger_eval)
  show ?thesis
    using C2_total_amended[OF e1] C2_total_amended[OF e2]
    by (simp add: ledger_eval)
qed

text \<open>
  The claim as worded (stored total \<open>= subtotal - discount + tax\<close> for every discount)
  fails for a discount larger than subtotal plus tax: a sale of one unit at 10 with a
  discount of 20 is stored with subtotal 10, discount 20, tax 0 and total 0, not -10.
\<close>

theorem C2_total_counterexample:
  "map_sum id (\<lambda>db. map (\<lambda>r. (subtotal r, discount r, tax r, total_col r)) (purchases db))
     (add_purchase decimal_literal default_config (Stamp 0 0)
        ((default_args ''Ann'' ''CRM Pro'' (PyInt 10))\<lparr> a_discount := PyInt 20 \<rparr>) empty_ledger)
   = Inr [(Some 10, Some 20, Some 0, Some 0)] \<and> (10::real) - 20 + 0 \<noteq> 0"
  by (simp add: ledger_eval)

subsection \<open>Stored quantity and unit price\<close>

text \<open>
  Claim C4. For every call that does not raise: if the quantity argument is 0 (the
  integer or the float), the string \<open>-3\<close> (which \<open>float\<close> reads as -3) or a string
  that \<open>float\<close> rejects,
  the stored quantity is 1; and if \<open>unit_price\<close> is \<open>None\<close>, the stored unit price is
  the amount argument after its coercion (\<open>float(amount)\<close>, or 0 on \<open>ValueError\<close>).
\<close>

theorem C4_quantity_and_unit_price:
  assumes "new_purchase pf cfg ts a = Inr r"
  shows "(a_quantity a = PyInt 0 \<or> a_quantity a = PyFloat 0
            \<or> (a_quantity a = PyStr ''-3'' \<and> pf ''-3'' = Some (- 3))
            \<or> (\<exists>s. a_quantity a = PyStr s \<and> pf s = None)
          \<longrightarrow> quantity r = Some 1)
       \<and> (a_unit_price a = PyNone
          \<longrightarrow> (\<exists>amt. float_or pf (a_amount a) 0 = Inr amt \<and> unit_price r = Some amt))"
proof -
  from assms obtain qty amt price where h:
    "coerce_quantity pf (a_quantity a) = Inr qty"
    "float_or pf (a_amount a) 0 = Inr amt"
    "coerce_unit_price pf (a_unit_price a) amt = Inr price"
    "quantity r = Some qty" "unit_price r = Some price"
    by (rule new_purchase_InrD)
  have q0: "coerce_quantity pf (PyInt 0) = Inr 1" "coerce_quantity pf (PyFloat 0) = Inr 1"
    by (simp_all add: coerce_quantity_def ebind_def)
  have q3: "pf ''-3'' = Some (- 3) \<Longrightarrow> coerce_quantity pf (PyStr ''-3'') = Inr 1"
    by (simp add: coerce_quantity_def ebind_def float_or_def)
  have qs: "\<And>s. pf s = None \<Longrightarrow> coerce_quantity pf (PyStr s) = Inr 1"
    by (simp add: coerce_quantity_def ebind_def float_or_def)
  have up: "a_unit_price a = PyNone \<Longrightarrow> price = amt"
    using h(3) by (simp add: coerce_unit_price_def float_or_def)
  show ?thesis
    using h q0 q3 qs up by auto
qed

theorem C4_quantity_and_unit_price_witness:
  "(\<exists>r. new_purchase decimal_literal default_config (Stamp 0 0)
          ((default_args ''Ann'' ''CRM Pro'' (PyInt 99))\<lparr> a_quantity := PyStr ''-3'' \<rparr>) = Inr r
        \<and> decimal_literal ''-3'' = Some (- 3) \<and> quantity r = Some 1 \<and> unit_price r = Some 99)
 \<and> (\<exists>r. new_purchase decimal_literal default_config (Stamp 0 0)
          ((default_args ''Ann'' ''CRM Pro'' (PyInt 99))\<lparr> a_quantity := PyInt 0 \<rparr>) = Inr r
        \<and> quantity r = Some 1)
 \<and> (\<exists>r. new_purchase decimal_literal default_config (Stamp 0 0)
          ((default_args ''Ann'' ''CRM Pro'' (PyInt 99))\<lparr> a_quantity := PyStr ''two'' \<rparr>) = Inr r
        \<and> decimal_literal ''two'' = None \<and> quantity r = Some 1)"
proof -
  let ?n1 = "new_purchase decimal_literal default_config (Stamp 0 0)
          ((default_args ''Ann'' ''CRM Pro'' (PyInt 99))\<lparr> a_quantity := PyStr ''-3'' \<rparr>)"
  let ?n2 = "new_purchase decimal_literal default_config (Stamp 0 0)
          ((default_args ''Ann'' ''CRM Pro'' (PyInt 99))\<lparr> a_quantity := PyInt 0 \<rparr>)"
  let ?n3 = "new_purchase decimal_literal default_config (Stamp 0 0)
          ((default_args ''Ann'' ''CRM Pro'' (PyInt 99))\<lparr> a_quantity := PyStr ''two'' \<rparr>)"
  have e1: "?n1 = Inr (projr ?n1)" by (simp add: ledger_eval)
  have e2: "?n2 = Inr (projr ?n2)" by (simp add: ledger_eval)
  have e3: "?n3 = Inr (projr ?n3)" by (simp add: ledger_eval)
  show ?thesis
    using C4_quantity_and_unit_price[OF e1] C4_quantity_and_unit_price[OF e2]
      C4_quantity_and_unit_price[OF e3]
    by (simp add: ledger_eval)
qed

subsection \<open>The amount column\<close>

lemma add_purchase_keeps_amount_total:
  assumes ok: "add_purchase pf cfg ts a db = Inr db'"
    and inv: "\<forall>r \<in> set (purchases db). total_col r = Some (amount r)"
  shows "\<forall>r \<in> set (purchases db'). total_col r = Some (amount r)"
proof -
  from ok obtain r where r: "new_purchase pf cfg ts a = Inr r"
    and db': "db' = evict (MAX_RECENT_PURCHASES cfg) (insert_purchase r db)"
    by (auto simp: add_purchase_Inr_iff)
  from r have "total_col r = Some (amount r)"
    by (rule new_purchase_InrD) simp
  with inv have "\<forall>x \<in> set (purchases (insert_purchase r db)). total_col x = Some (amount x)"
    by auto
  with set_purchases_evict show ?thesis
    unfolding db' by blast
qed

lemma record_calls_keeps_amount_total:
  "\<forall>r \<in> set (purchases db). total_col r = Some (amount r) \<Longrightarrow>
   \<forall>r \<in> set (purchases (record_calls pf cfg cs db)). total_col r = Some (amount r)"
proof (induction cs arbitrary: db)
  case Nil
  then show ?case by simp
next
  case (Cons c cs)
  obtain ts a where c: "c = (ts, a)" by (cases c)
  show ?case
  proof (cases "add_purchase pf cfg ts a db")
    case (Inl e)
    then show ?thesis using Cons c by simp
  next
    case (Inr db')
    have "\<forall>r \<in> set (purchases db'). total_col r = Some (amount r)"
      using Inr Cons.prems by (rule add_purchase_keeps_amount_total)
    then show ?thesis using Cons.IH[of db'] Inr c by simp
  qed
qed

lemma new_purchase_amount_irrelevant:
  assumes u: "a_unit_price a \<noteq> PyNone" and v: "v \<noteq> PyNone" and w: "w \<noteq> PyNone"
  shows "new_purchase pf cfg ts (a\<lparr> a_amount := v \<rparr>) = new_purchase pf cfg ts (a\<lparr> a_amount := w \<rparr>)"
proof -
  obtain x where x: "float_or pf v 0 = Inr x"
    using v float_or_total by blast
  obtain y where y: "float_or pf w 0 = Inr y"
    using w float_or_total by blast
  show ?thesis
    using u by (simp add: new_purchase_def x y coerce_unit_price_def ebind_def)
qed

text \<open>
  Claim C10. In a ledger whose rows all have \<open>total = amount\<close> (the empty ledger, for
  one), every row present after any sequence of \<open>add_purchase\<close> calls has its
  \<open>amount\<close> column equal to its \<open>total\<close> column, so \<open>COALESCE(total, amount, 0)\<close> is the
  total. The \<open>amount\<close> argument itself is not stored: when a unit price is supplied, two
  calls that differ only in \<open>amount\<close> (neither being \<open>None\<close>) have the same outcome.
\<close>

theorem C10_amount_column_is_total:
  assumes "\<forall>r \<in> set (purchases db). total_col r = Some (amount r)"
  shows "(\<forall>r \<in> set (purchases (record_calls pf cfg cs db)).
            total_col r = Some (amount r) \<and> coalesce_total r = amount r)
       \<and> (\<forall>ts a v w. a_unit_price a \<noteq> PyNone \<and> v \<noteq> PyNone \<and> w \<noteq> PyNone
            \<longrightarrow> add_purchase pf cfg ts (a\<lparr> a_amount := v \<rparr>) db
                = add_purchase pf cfg ts (a\<lparr> a_amount := w \<rparr>) db)"
proof
  show "\<forall>r \<in> set (purchases (record_calls pf cfg cs db)).
            total_col r = Some (amount r) \<and> coalesce_total r = amount r"
    using record_calls_keeps_amount_total[OF assms, of pf cfg cs]
    by (simp add: coalesce_total_def)
next
  show "\<forall>ts a v w. a_unit_price a \<noteq> PyNone \<and> v \<noteq> PyNone \<and> w \<noteq> PyNone
            \<longrightarrow> add_purchase pf cfg ts (a\<lparr> a_amount := v \<rparr>) db
                = add_purchase pf cfg ts (a\<lparr> a_amount := w \<rparr>) db"
  proof (intro allI impI)
    fix ts :: stamp and a :: purchase_args and v w :: pyval
    assume "a_unit_price a \<noteq> PyNone \<and> v \<noteq> PyNone \<and> w \<noteq> PyNone"
    then have "new_purchase pf cfg ts (a\<lparr> a_amount := v \<rparr>)
        = new_purchase pf cfg ts (a\<lparr> a_amount := w \<rparr>)"
      by (intro new_purchase_amount_irrelevant) simp_all
    then show "add_purchase pf cfg ts (a\<lparr> a_amount := v \<rparr>) db
        = add_purchase pf cfg ts (a\<lparr> a_amount := w \<rparr>) db"
      by (simp only: add_purchase_def)
  qed
qed

theorem C10_amount_column_is_total_witness:
  "map (\<lambda>r. (amount r, total_col r)) (purchases (record_calls decimal_literal default_config
        [(Stamp 1 0, (default_args ''Ann'' ''CRM Pro'' (PyInt 99))\<lparr> a_quantity := PyInt 2 \<rparr>)]
        empty_ledger)) = [(198, Some 198)]
 \<and> map (\<lambda>r. (amount r, total_col r, coalesce_total r))
      (purchases (record_calls decimal_literal default_config
        [(Stamp 2 0, (default_args ''Bob'' ''Marketing Tool'' (PyInt 79))\<lparr> a_tax := PyInt 1 \<rparr>)]
        (record_calls decimal_literal default_config
          [(Stamp 1 0, (default_args ''Ann'' ''CRM Pro'' (PyInt 99))\<lparr> a_quantity := PyInt 2 \<rparr>)]
          empty_ledger)))
    = [(198, Some 198, 198), (80, Some 80, 80)]
 \<and> add_purchase decimal_literal default_config (Stamp 3 0)
      ((default_args ''Cy'' ''CRM Pro'' (PyInt 5))\<lparr> a_unit_price := PyInt 99 \<rparr>) empty_ledger
    = add_purchase decimal_literal default_config (Stamp 3 0)
      ((default_args ''Cy'' ''CRM Pro'' (PyInt 7))\<lparr> a_unit_price := PyInt 99 \<rparr>) empty_ledger"
proof -
  let ?db = "record_calls decimal_literal default_config
        [(Stamp 1 0, (default_args ''Ann'' ''CRM Pro'' (PyInt 99))\<lparr> a_quantity := PyInt 2 \<rparr>)]
        empty_ledger"
  have h: "\<forall>r \<in> set (purchases ?db). total_col r = Some (amount r)"
    by (simp add: ledger_eval)
  have h0: "\<forall>r \<in> set (purchases empty_ledger). total_col r = Some (amount r)"
    by (simp add: empty_ledger_def)
  show ?thesis
    using C10_amount_column_is_total[OF h, of decimal_literal default_config
        "[(Stamp 2 0, (default_args ''Bob'' ''Marketing Tool'' (PyInt 79))\<lparr> a_tax := PyInt 1 \<rparr>)]"]
      C10_amount_column_is_total[OF h0, of decimal_literal default_config "[]"]
    by (simp add: ledger_eval coalesce_total_def)
qed

subsection \<open>Bounded retention\<close>

lemma le_foldr_max: "x \<in> set xs \<Longrightarrow> x \<le> foldr max xs (b::int)"
  by (induction xs) auto

lemma next_id_greater: "x \<in> set (purchases db) \<Longrightarrow> purchase_id x < next_id db"
proof -
  assume "x \<in> set (purchases db)"
  then have "purchase_id x \<le> foldr max (map purchase_id (purchases db)) 0"
    by (intro le_foldr_max) simp
  then show ?thesis by (simp add: next_id_def)
qed

lemma distinct_ids_insert:
  assumes "distinct (map purchase_id (purchases db))"
  shows "distinct (map purchase_id (purchases (insert_purchase r db)))"
proof -
  have "next_id db \<notin> purchase_id ` set (purchases db)"
    using next_id_greater[of _ db] by fastforce
  then show ?thesis using assms by (simp add: insert_purchase_def)
qed

lemma top_keys_distinct: "distinct ks \<Longrightarrow> distinct (take m (rev (sort ks)))"
  by simp

lemma top_keys_subset: "set (take m (rev (sort ks))) \<subseteq> set (ks::int list)"
  using set_take_subset[of m "rev (sort ks)"] by simp

lemma top_keys_above:
  assumes "distinct (ks::int list)" "x \<in> set ks" "x \<notin> set (take m (rev (sort ks)))"
    "k \<in> set (take m (rev (sort ks)))"
  shows "x < k"
proof -
  let ?d = "rev (sort ks)"
  have split: "?d = take m ?d @ drop m ?d" by simp
  have "x \<in> set ?d" using assms(2) by simp
  then have xd: "x \<in> set (drop m ?d)"
    using assms(3) by (metis Un_iff set_append split)
  have "sorted_wrt (\<ge>) ?d" by (simp add: sorted_wrt_rev)
  then have "sorted_wrt (\<ge>) (take m ?d @ drop m ?d)" by simp
  then have "k \<ge> x" using xd assms(4) unfolding sorted_wrt_append by blast
  moreover have "k \<noteq> x" using assms(3,4) by auto
  ultimately show ?thesis by simp
qed

lemma length_keep_top:
  fixes f :: "'a \<Rightarrow> int"
  assumes "distinct (map f rows)"
  shows "length (filter (\<lambda>r. f r \<in> set (take m (rev (sort (map f rows))))) rows)
           = min m (length rows)" (is "length (filter ?P rows) = _")
proof -
  let ?ks = "map f rows"
  let ?S = "set (take m (rev (sort ?ks)))"
  have "length (filter ?P rows) = length (filter (\<lambda>k. k \<in> ?S) ?ks)"
    by (simp add: filter_map comp_def)
  also have "\<dots> = card ({k. k \<in> ?S} \<inter> set ?ks)"
    using assms by (rule distinct_length_filter)
  also have "{k. k \<in> ?S} \<inter> set ?ks = ?S"
    using top_keys_subset[of m ?ks] by auto
  also have "card ?S = length (take m (rev (sort ?ks)))"
    using assms by (intro distinct_card top_keys_distinct)
  also have "\<dots> = min m (length rows)" by (simp add: min.commute)
  finally show ?thesis .
qed

lemma purchases_evict_nonneg:
  "0 \<le> n \<Longrightarrow> purchases (evict n db) =
     filter (\<lambda>r. purchase_id r \<in> set (take (nat n) (rev (sort (map purchase_id (purchases db))))))
       (purchases db)"
  by (simp add: evict_def sql_limit_def)

lemma evict_length:
  assumes "0 \<le> n" "distinct (map purchase_id (purchases db))"
  shows "length (purchases (evict n db)) = min (nat n) (length (purchases db))"
  using length_keep_top[OF assms(2), of "nat n"] assms(1)
  by (simp add: purchases_evict_nonneg)

lemma evict_distinct:
  "distinct (map purchase_id (purchases db)) \<Longrightarrow> distinct (map purchase_id (purchases (evict n db)))"
  by (simp add: purchases_evict distinct_map_filter)

lemma evict_keeps_highest:
  assumes "0 \<le> n" "distinct (map purchase_id (purchases db))"
    "x \<in> set (purchases db)" "x \<notin> set (purchases (evict n db))"
    "k \<in> set (purchases (evict n db))"
  shows "purchase_id x < purchase_id k"
proof -
  let ?ks = "map purchase_id (purchases db)"
  have 1: "purchase_id x \<in> set ?ks" using assms(3) by simp
  have 2: "purchase_id x \<notin> set (take (nat n) (rev (sort ?ks)))"
    using assms(1,3,4) by (simp add: purchases_evict_nonneg)
  have 3: "purchase_id k \<in> set (take (nat n) (rev (sort ?ks)))"
    using assms(1,5) by (simp add: purchases_evict_nonneg)
  show ?thesis using top_keys_above[OF assms(2) 1 2 3] .
qed

lemma add_purchase_invariant:
  assumes "add_purchase pf cfg ts a db = Inr db'"
    "distinct (map purchase_id (purchases db))" "0 \<le> MAX_RECENT_PURCHASES cfg"
  shows "distinct (map purchase_id (purchases db'))
       \<and> int (length (purchases db')) \<le> MAX_RECENT_PURCHASES cfg"
proof -
  from assms(1) obtain r where db': "db' = evict (MAX_RECENT_PURCHASES cfg) (insert_purchase r db)"
    by (auto simp: add_purchase_Inr_iff)
  have d: "distinct (map purchase_id (purchases (insert_purchase r db)))"
    using assms(2) by (rule distinct_ids_insert)
  show ?thesis
    unfolding db' using evict_length[OF assms(3) d] evict_distinct[OF d] assms(3) by simp
qed

lemma record_calls_invariant:
  assumes "distinct (map purchase_id (purchases db))"
    "int (length (purchases db)) \<le> MAX_RECENT_PURCHASES cfg"
  shows "distinct (map purchase_id (purchases (record_calls pf cfg cs db)))
       \<and> int (length (purchases (record_calls pf cfg cs db))) \<le> MAX_RECENT_PURCHASES cfg"
  using assms
proof (induction cs arbitrary: db)
  case Nil
  then show ?case by simp
next
  case (Cons c cs)
  obtain ts a where c: "c = (ts, a)" by (cases c)
  show ?case
  proof (cases "add_purchase pf cfg ts a db")
    case (Inl e)
    then show ?thesis using Cons c by simp
  next
    case (Inr db')
    have "0 \<le> MAX_RECENT_PURCHASES cfg" using Cons.prems(2) by linarith
    from add_purchase_invariant[OF Inr Cons.prems(1) this]
    show ?thesis using Cons.IH[of db'] Inr c by simp
  qed
qed

lemma ids_evict:
  "map purchase_id (purchases (evict n db)) =
     filter (\<lambda>k. k \<in> set (sql_limit n (rev (sort (map purchase_id (purchases db))))))
       (map purchase_id (purchases db))"
  by (simp add: purchases_evict filter_map comp_def)

lemma ids_insert:
  "map purchase_id (purchases (insert_purchase r db)) = map purchase_id (purchases db) @ [next_id db]"
  by (simp add: insert_purchase_def)

lemma ids_restamp [simp]: "map purchase_id (purchases (restamp g db)) = map purchase_id (purchases db)"
  by (simp add: restamp_def comp_def)

lemma next_id_restamp [simp]: "next_id (restamp g db) = next_id db"
  by (simp add: next_id_def) (simp add: restamp_def)

lemma new_purchase_any_stamp:
  "new_purchase pf cfg ts a = Inr r \<Longrightarrow> \<exists>r'. new_purchase pf cfg ts' a = Inr r'"
  unfolding new_purchase_def ebind_Inr_iff Let_def by blast

lemma ids_after_add_restamped:
  assumes "add_purchase pf cfg ts a db = Inr db'"
  shows "\<exists>d. add_purchase pf cfg ts' a (restamp g db) = Inr d
            \<and> map purchase_id (purchases d) = map purchase_id (purchases db')"
proof -
  from assms obtain r where r: "new_purchase pf cfg ts a = Inr r"
    and db': "db' = evict (MAX_RECENT_PURCHASES cfg) (insert_purchase r db)"
    by (auto simp: add_purchase_Inr_iff)
  from r obtain r' where r': "new_purchase pf cfg ts' a = Inr r'"
    using new_purchase_any_stamp by blast
  let ?d = "evict (MAX_RECENT_PURCHASES cfg) (insert_purchase r' (restamp g db))"
  have "add_purchase pf cfg ts' a (restamp g db) = Inr ?d"
    using r' by (auto simp: add_purchase_Inr_iff)
  moreover have "map purchase_id (purchases ?d) = map purchase_id (purchases db')"
    unfolding db' by (simp add: ids_evict ids_insert)
  ultimately show ?thesis by blast
qed

lemma add_purchase_visible:
  "map committed (run_script (add_purchase_script cfg r) (connect db))
     = [db, db, evict (MAX_RECENT_PURCHASES cfg) (insert_purchase r db)]"
  by (simp add: add_purchase_script_def connect_def execute_def commit_def current_def)

text \<open>
  With a retention limit of at least one, the row that \<open>new_purchase\<close> builds is in the
  table after the call, as its last row and under the next identity: what the theorems
  on \<open>new_purchase\<close> say of the row is said of the stored row.
\<close>

lemma add_purchase_stores_row:
  assumes "new_purchase pf cfg ts a = Inr r" "0 < MAX_RECENT_PURCHASES cfg"
    "distinct (map purchase_id (purchases db))"
  shows "\<exists>db'. add_purchase pf cfg ts a db = Inr db'
           \<and> purchases db' \<noteq> [] \<and> last (purchases db') = r\<lparr> purchase_id := next_id db \<rparr>"
proof -
  let ?M = "MAX_RECENT_PURCHASES cfg"
  let ?new = "r\<lparr> purchase_id := next_id db \<rparr>"
  let ?ins = "insert_purchase r db"
  let ?db' = "evict ?M ?ins"
  have M: "0 \<le> ?M" using assms(2) by simp
  have dins: "distinct (map purchase_id (purchases ?ins))"
    using assms(3) by (rule distinct_ids_insert)
  have ok: "add_purchase pf cfg ts a db = Inr ?db'"
    using assms(1) by (auto simp: add_purchase_Inr_iff)
  have len: "length (purchases ?db') = min (nat ?M) (length (purchases db) + 1)"
    using evict_length[OF M dins] by simp
  then have ne: "purchases ?db' \<noteq> []" using assms(2) by auto
  have kept: "?new \<in> set (purchases ?db')"
  proof (rule ccontr)
    assume out: "?new \<notin> set (purchases ?db')"
    from ne obtain k where k: "k \<in> set (purchases ?db')" by (cases "purchases ?db'") auto
    have "?new \<in> set (purchases ?ins)" by simp
    from evict_keeps_highest[OF M dins this out k]
    have lt: "next_id db < purchase_id k" by simp
    have "k \<in> set (purchases ?ins)" using k set_purchases_evict by blast
    then have "k = ?new \<or> k \<in> set (purchases db)" by auto
    then show False using lt next_id_greater[of k db] by auto
  qed
  let ?P = "\<lambda>x. purchase_id x \<in> set (sql_limit ?M (rev (sort (map purchase_id (purchases ?ins)))))"
  have "set (purchases ?db') = {x \<in> set (purchases ?ins). ?P x}"
    by (simp only: purchases_evict set_filter)
  with kept have "?P ?new" by blast
  then have "purchases ?db' = filter ?P (purchases db) @ [?new]"
    by (simp add: purchases_evict)
  then have "last (purchases ?db') = ?new" by simp
  with ok ne show ?thesis by blast
qed

text \<open>
  Claim C1. Start from any ledger with distinct identities and at most
  \<open>MAX_RECENT_PURCHASES\<close> rows, run any sequence of \<open>add_purchase\<close> calls, then one more
  call that does not raise. After it the table holds at most \<open>MAX_RECENT_PURCHASES\<close>
  rows, namely as many as the limit allows of the previous rows and the new one; every
  row that is gone has a smaller identity than every row that stayed; the new row has
  the largest identity of all; the retained identities are the same whatever the stored
  timestamps and the clock reading are; and another connection sees the table change
  only at the commit, from the state before the insert to the state after the eviction.
\<close>

theorem C1_bounded_retention:
  assumes "distinct (map purchase_id (purchases db0))"
    and "int (length (purchases db0)) \<le> MAX_RECENT_PURCHASES cfg"
    and "db = record_calls pf cfg cs db0"
    and "new_purchase pf cfg ts a = Inr r"
  shows "\<exists>db'. add_purchase pf cfg ts a db = Inr db'
      \<and> int (length (purchases db')) \<le> MAX_RECENT_PURCHASES cfg
      \<and> length (purchases db') = min (nat (MAX_RECENT_PURCHASES cfg)) (length (purchases db) + 1)
      \<and> set (purchases db') \<subseteq> set (purchases db) \<union> {r\<lparr> purchase_id := next_id db \<rparr>}
      \<and> (\<forall>x \<in> set (purchases db) \<union> {r\<lparr> purchase_id := next_id db \<rparr>}.
            x \<notin> set (purchases db') \<longrightarrow>
            (\<forall>k \<in> set (purchases db'). purchase_id x < purchase_id k))
      \<and> (\<forall>x \<in> set (purchases db). purchase_id x < next_id db)
      \<and> distinct (map purchase_id (purchases db'))
      \<and> (\<forall>g ts'. \<exists>d. add_purchase pf cfg ts' a (restamp g db) = Inr d
            \<and> map purchase_id (purchases d) = map purchase_id (purchases db'))
      \<and> map committed (run_script (add_purchase_script cfg r) (connect db)) = [db, db, db']"
proof -
  let ?M = "MAX_RECENT_PURCHASES cfg"
  let ?ins = "insert_purchase r db"
  let ?db' = "evict ?M ?ins"
  have M: "0 \<le> ?M" using assms(2) by linarith
  have inv: "distinct (map purchase_id (purchases db))"
    unfolding assms(3) using record_calls_invariant[OF assms(1,2)] by blast
  have dins: "distinct (map purchase_id (purchases ?ins))"
    using inv by (rule distinct_ids_insert)
  have ok: "add_purchase pf cfg ts a db = Inr ?db'"
    using assms(4) by (auto simp: add_purchase_Inr_iff)
  have len: "length (purchases ?db') = min (nat ?M) (length (purchases db) + 1)"
    using evict_length[OF M dins] by simp
  have bound: "int (length (purchases ?db')) \<le> ?M"
    using len M by simp
  have sub: "set (purchases ?db') \<subseteq> set (purchases db) \<union> {r\<lparr> purchase_id := next_id db \<rparr>}"
    using set_purchases_evict[of ?M ?ins] by auto
  have top: "\<forall>x \<in> set (purchases db) \<union> {r\<lparr> purchase_id := next_id db \<rparr>}.
            x \<notin> set (purchases ?db') \<longrightarrow>
            (\<forall>k \<in> set (purchases ?db'). purchase_id x < purchase_id k)"
  proof (intro ballI impI)
    fix x k
    assume "x \<in> set (purchases db) \<union> {r\<lparr> purchase_id := next_id db \<rparr>}"
      and out: "x \<notin> set (purchases ?db')" and k: "k \<in> set (purchases ?db')"
    then have "x \<in> set (purchases ?ins)" by auto
    then show "purchase_id x < purchase_id k"
      using evict_keeps_highest[OF M dins _ out k] by blast
  qed
  have newest: "\<forall>x \<in> set (purchases db). purchase_id x < next_id db"
    using next_id_greater by blast
  have dist: "distinct (map purchase_id (purchases ?db'))"
    using dins by (rule evict_distinct)
  have stamps: "\<forall>g ts'. \<exists>d. add_purchase pf cfg ts' a (restamp g db) = Inr d
            \<and> map purchase_id (purchases d) = map purchase_id (purchases ?db')"
    using ids_after_add_restamped[OF ok] by blast
  show ?thesis
    using ok bound len sub top newest dist stamps add_purchase_visible[of cfg r db]
    by (intro exI[of _ ?db']) blast
qed

theorem C1_bounded_retention_witness:
  "distinct (map purchase_id (purchases empty_ledger))
 \<and> int (length (purchases empty_ledger)) \<le> MAX_RECENT_PURCHASES small_config
 \<and> (\<exists>r. new_purchase decimal_literal small_config (Stamp 3 0)
            (default_args ''C'' ''CRM Pro'' (PyInt 10)) = Inr r)
 \<and> (\<exists>db'. add_purchase decimal_literal small_config (Stamp 3 0)
              (default_args ''C'' ''CRM Pro'' (PyInt 10))
              (record_calls decimal_literal small_config
                 [(Stamp 9 0, default_args ''A'' ''CRM Pro'' (PyInt 10)),
                  (Stamp 8 0, default_args ''B'' ''CRM Pro'' (PyInt 10))] empty_ledger) = Inr db'
        \<and> int (length (purchases db')) \<le> 2
        \<and> map (\<lambda>r. (purchase_id r, customer r)) (purchases db') = [(2, ''B''), (3, ''C'')])"
proof -
  let ?cs = "[(Stamp 9 0, default_args ''A'' ''CRM Pro'' (PyInt 10)),
              (Stamp 8 0, default_args ''B'' ''CRM Pro'' (PyInt 10))]"
  let ?n = "new_purchase decimal_literal small_config (Stamp 3 0)
              (default_args ''C'' ''CRM Pro'' (PyInt 10))"
  have h1: "distinct (map purchase_id (purchases empty_ledger))"
    by (simp add: empty_ledger_def)
  have h2: "int (length (purchases empty_ledger)) \<le> MAX_RECENT_PURCHASES small_config"
    by (simp add: empty_ledger_def small_config_def default_config_def)
  have h4: "?n = Inr (projr ?n)" by (simp add: ledger_eval)
  from C1_bounded_retention[OF h1 h2 refl h4, of ?cs]
  obtain db' where ok: "add_purchase decimal_literal small_config (Stamp 3 0)
       (default_args ''C'' ''CRM Pro'' (PyInt 10))
       (record_calls decimal_literal small_config ?cs empty_ledger) = Inr db'"
    and bound: "int (length (purchases db')) \<le> MAX_RECENT_PURCHASES small_config"
    by blast
  have "map_sum id (\<lambda>db. map (\<lambda>r. (purchase_id r, customer r)) (purchases db))
     (add_purchase decimal_literal small_config (Stamp 3 0) (default_args ''C'' ''CRM Pro'' (PyInt 10))
       (record_calls decimal_literal small_config ?cs empty_ledger))
   = Inr [(2, ''B''), (3, ''C'')]"
    by (simp add: ledger_eval)
  with ok have ids: "map (\<lambda>r. (purchase_id r, customer r)) (purchases db') = [(2, ''B''), (3, ''C'')]"
    by simp
  have b: "int (length (purchases db')) \<le> 2"
    using bound by (simp add: small_config_def default_config_def)
  have "\<exists>r. ?n = Inr r" using h4 by (rule exI[of _ "projr ?n"])
  moreover have "\<exists>db'. add_purchase decimal_literal small_config (Stamp 3 0)
              (default_args ''C'' ''CRM Pro'' (PyInt 10))
              (record_calls decimal_literal small_config ?cs empty_ledger) = Inr db'
        \<and> int (length (purchases db')) \<le> 2
        \<and> map (\<lambda>r. (purchase_id r, customer r)) (purchases db') = [(2, ''B''), (3, ''C'')]"
    using ok b ids by (intro exI[of _ db']) simp
  ultimately show ?thesis using h1 h2 by simp
qed

section \<open>Properties of the analytics\<close>

text \<open>
  Claim C8. For a day that no purchase's timestamp falls on, \<open>get_daily_summary\<close>
  returns count 0, revenue 0 and average 0: \<open>SUM\<close> and \<open>AVG\<close> over no rows are
  \<open>NULL\<close>, which \<open>or 0\<close> turns into zero, and nothing is divided.
\<close>

theorem C8_empty_day_summary:
  assumes "\<forall>r \<in> set (purchases db). sql_date (timestamp r) \<noteq> Some date_label"
  shows "get_daily_summary date_label db = \<lparr> count = 0, revenue = 0, avg = 0 \<rparr>"
proof -
  have "filter (\<lambda>r. sql_date (timestamp r) = Some date_label) (purchases db) = []"
    using assms by (simp add: filter_empty_conv)
  then show ?thesis
    by (simp add: get_daily_summary_def sql_sum_def sql_avg_def or_zero_def)
qed

theorem C8_empty_day_summary_witness:
  "map (\<lambda>r. sql_date (timestamp r)) (purchases (record_calls decimal_literal default_config
        [(Stamp 5 0, default_args ''Ann'' ''CRM Pro'' (PyInt 99))] empty_ledger)) = [Some 5]
 \<and> get_daily_summary 6 (record_calls decimal_literal default_config
        [(Stamp 5 0, default_args ''Ann'' ''CRM Pro'' (PyInt 99))] empty_ledger)
    = \<lparr> count = 0, revenue = 0, avg = 0 \<rparr>"
proof -
  let ?db = "record_calls decimal_literal default_config
        [(Stamp 5 0, default_args ''Ann'' ''CRM Pro'' (PyInt 99))] empty_ledger"
  have h: "\<forall>r \<in> set (purchases ?db). sql_date (timestamp r) \<noteq> Some 6"
    by (simp add: ledger_eval)
  have "map (\<lambda>r. sql_date (timestamp r)) (purchases ?db) = [Some 5]"
    by (simp add: ledger_eval)
  with C8_empty_day_summary[OF h] show ?thesis by simp
qed

section \<open>Properties of the report narrative\<close>

text \<open>
  Claim C6. When the provider selector is \<open>none\<close>, \<open>complete\<close> returns \<open>None\<close> for all
  prompts and whatever the remote service would answer, and the narrative of the daily
  report is the ``below target'' text if today's count is below the daily target and
  the ``on track'' text otherwise.
\<close>

theorem C6_disabled_collaborator:
  assumes "LLM_PROVIDER cfg = ''none''"
  shows "fst (complete_llm post (LLMClient_init cfg) system_prompt user_prompt) = None
       \<and> report_narrative post cfg (LLMClient_init cfg) cnt summary_text
           = (if cnt < DAILY_SALES_TARGET cfg then below_target_text else on_track_text)"
  using assms
  by (simp add: complete_llm_def LLMClient_init_def is_enabled_def report_narrative_def)

theorem C6_disabled_collaborator_witness:
  "LLM_PROVIDER default_config = ''none''
 \<and> fst (complete_llm (\<lambda>s u. Content ''Revenue is up.'') (LLMClient_init default_config)
          ''system'' ''user'') = None
 \<and> report_narrative (\<lambda>s u. Content ''Revenue is up.'') default_config
      (LLMClient_init default_config) 3 ''Sales count: 3'' = below_target_text
 \<and> report_narrative (\<lambda>s u. Content ''Revenue is up.'') default_config
      (LLMClient_init default_config) 12 ''Sales count: 12'' = on_track_text"
proof -
  have h: "LLM_PROVIDER default_config = ''none''" by (simp add: default_config_def)
  show ?thesis
    using h C6_disabled_collaborator[OF h, of "\<lambda>s u. Content ''Revenue is up.''" "''system''" "''user''" 3 "''Sales count: 3''"]
      C6_disabled_collaborator[OF h, of "\<lambda>s u. Content ''Revenue is up.''" "''system''" "''user''" 12 "''Sales count: 12''"]
    by (simp add: default_config_def)
qed

section \<open>Properties of the customer directory\<close>

lemma find_email_Some:
  "\<exists>y \<in> set rows. P y \<Longrightarrow> \<exists>x. find P rows = Some x \<and> x \<in> set rows \<and> P x"
  by (induction rows) auto

lemma find_None_iff': "find P rows = None \<longleftrightarrow> \<not> (\<exists>y \<in> set rows. P y)"
  by (induction rows) auto

lemma find_customer_by_email:
  assumes "email \<noteq> []" "find (\<lambda>r. c_email r = Some email) rows = Some x"
  shows "find_customer name email rows = Some (customer_id x)"
  using assms by (simp add: find_customer_def)

lemma find_customer_by_name:
  assumes "email = [] \<or> find (\<lambda>r. c_email r = Some email) rows = None"
    "find (\<lambda>r. c_name r = name) rows = Some x"
  shows "find_customer name email rows = Some (customer_id x)"
  using assms by (auto simp add: find_customer_def)

lemma find_customer_none:
  assumes "email = [] \<or> find (\<lambda>r. c_email r = Some email) rows = None"
    "find (\<lambda>r. c_name r = name) rows = None"
  shows "find_customer name email rows = None"
  using assms by (auto simp add: find_customer_def)

lemma next_customer_id_fresh: "next_customer_id db \<notin> customer_id ` set (customers db)"
proof
  assume "next_customer_id db \<in> customer_id ` set (customers db)"
  then obtain x where x: "x \<in> set (customers db)" "customer_id x = next_customer_id db" by force
  from x(1) have "customer_id x \<in> set (map customer_id (customers db))" by simp
  then have "customer_id x \<le> foldr max (map customer_id (customers db)) 0"
    by (rule le_foldr_max)
  then show False using x(2) by (simp add: next_customer_id_def)
qed

lemma merge_customer_fields:
  "customer_id (merge_customer now a r) = customer_id r
       \<and> c_name (merge_customer now a r) = trim (u_name a)
       \<and> c_created_at (merge_customer now a r) = c_created_at r
       \<and> c_updated_at (merge_customer now a r) = now
       \<and> c_email (merge_customer now a r) = (if trim (u_email a) = [] then c_email r else Some (trim (u_email a)))
       \<and> c_phone (merge_customer now a r) = (if trim (u_phone a) = [] then c_phone r else Some (trim (u_phone a)))
       \<and> c_company (merge_customer now a r) = (if trim (u_company a) = [] then c_company r else Some (trim (u_company a)))
       \<and> c_industry (merge_customer now a r) = (if trim (u_industry a) = [] then c_industry r else Some (trim (u_industry a)))
       \<and> c_segment (merge_customer now a r) = (if trim (u_segment a) = [] then c_segment r else Some (trim (u_segment a)))
       \<and> c_status (merge_customer now a r) = (if trim (u_status a) = [] then c_status r else Some (trim (u_status a)))
       \<and> c_lead_source (merge_customer now a r) = (if trim (u_lead_source a) = [] then c_lead_source r else Some (trim (u_lead_source a)))
       \<and> c_address_line1 (merge_customer now a r) = (if trim (u_address_line1 a) = [] then c_address_line1 r else Some (trim (u_address_line1 a)))
       \<and> c_address_line2 (merge_customer now a r) = (if trim (u_address_line2 a) = [] then c_address_line2 r else Some (trim (u_address_line2 a)))
       \<and> c_city (merge_customer now a r) = (if trim (u_city a) = [] then c_city r else Some (trim (u_city a)))
       \<and> c_state (merge_customer now a r) = (if trim (u_state a) = [] then c_state r else Some (trim (u_state a)))
       \<and> c_country (merge_customer now a r) = (if trim (u_country a) = [] then c_country r else Some (trim (u_country a)))
       \<and> c_postal_code (merge_customer now a r) = (if trim (u_postal_code a) = [] then c_postal_code r else Some (trim (u_postal_code a)))
       \<and> c_notes (merge_customer now a r) = (if trim (u_notes a) = [] then c_notes r else Some (trim (u_notes a)))
       \<and> c_last_contact_at (merge_customer now a r) = (if trim (u_last_contact_at a) = [] then c_last_contact_at r else Some (trim (u_last_contact_at a)))"
  by (simp add: merge_customer_def coalesce_nullif_def)

text \<open>
  Claim C3. For an upsert whose trimmed name is not blank: if the trimmed email is not
  empty and some row has that email, the first such row is updated and its identity
  returned, whatever its name; otherwise, if some row has the name, the first such row
  is updated and its identity returned; otherwise a row with a fresh identity is
  appended and that identity returned. The update leaves every row with another
  identity as it is and merges field by field: each optional column keeps its stored
  value when the incoming value is empty and takes the incoming value otherwise.
\<close>

theorem C3_upsert_resolution:
  assumes "trim (u_name a) \<noteq> []"
  shows "(trim (u_email a) \<noteq> [] \<and> (\<exists>y \<in> set (customers db). c_email y = Some (trim (u_email a)))
          \<longrightarrow> (\<exists>x. find (\<lambda>r. c_email r = Some (trim (u_email a))) (customers db) = Some x
                 \<and> x \<in> set (customers db) \<and> c_email x = Some (trim (u_email a))
                 \<and> upsert_customer now a db =
                     (Some (customer_id x),
                      db\<lparr> customers := map (\<lambda>r. if customer_id r = customer_id x
                                                then merge_customer now a r else r)
                                          (customers db) \<rparr>)))
       \<and> (\<not> (trim (u_email a) \<noteq> [] \<and> (\<exists>y \<in> set (customers db). c_email y = Some (trim (u_email a))))
            \<and> (\<exists>y \<in> set (customers db). c_name y = trim (u_name a))
          \<longrightarrow> (\<exists>x. find (\<lambda>r. c_name r = trim (u_name a)) (customers db) = Some x
                 \<and> x \<in> set (customers db) \<and> c_name x = trim (u_name a)
                 \<and> upsert_customer now a db =
                     (Some (customer_id x),
                      db\<lparr> customers := map (\<lambda>r. if customer_id r = customer_id x
                                                then merge_customer now a r else r)
                                          (customers db) \<rparr>)))
       \<and> (\<not> (trim (u_email a) \<noteq> [] \<and> (\<exists>y \<in> set (customers db). c_email y = Some (trim (u_email a))))
            \<and> \<not> (\<exists>y \<in> set (customers db). c_name y = trim (u_name a))
          \<longrightarrow> upsert_customer now a db = (Some (next_customer_id db), insert_customer now a db)
              \<and> next_customer_id db \<notin> customer_id ` set (customers db)
              \<and> butlast (customers (insert_customer now a db)) = customers db
              \<and> customer_id (last (customers (insert_customer now a db))) = next_customer_id db
              \<and> c_name (last (customers (insert_customer now a db))) = trim (u_name a))
       \<and> (\<forall>r. customer_id (merge_customer now a r) = customer_id r
       \<and> c_name (merge_customer now a r) = trim (u_name a)
       \<and> c_email (merge_customer now a r) = (if trim (u_email a) = [] then c_email r else Some (trim (u_email a)))
       \<and> c_phone (merge_customer now a r) = (if trim (u_phone a) = [] then c_phone r else Some (trim (u_phone a)))
       \<and> c_company (merge_customer now a r) = (if trim (u_company a) = [] then c_company r else Some (trim (u_company a)))
       \<and> c_industry (merge_customer now a r) = (if trim (u_industry a) = [] then c_industry r else Some (trim (u_industry a)))
       \<and> c_segment (merge_customer now a r) = (if trim (u_segment a) = [] then c_segment r else Some (trim (u_segment a)))
       \<and> c_status (merge_customer now a r) = (if trim (u_status a) = [] then c_status r else Some (trim (u_status a)))
       \<and> c_lead_source (merge_customer now a r) = (if trim (u_lead_source a) = [] then c_lead_source r else Some (trim (u_lead_source a)))
       \<and> c_address_line1 (merge_customer now a r) = (if trim (u_address_line1 a) = [] then c_address_line1 r else Some (trim (u_address_line1 a)))
       \<and> c_address_line2 (merge_customer now a r) = (if trim (u_address_line2 a) = [] then c_address_line2 r else Some (trim (u_address_line2 a)))
       \<and> c_city (merge_customer now a r) = (if trim (u_city a) = [] then c_city r else Some (trim (u_city a)))
       \<and> c_state (merge_customer now a r) = (if trim (u_state a) = [] then c_state r else Some (trim (u_state a)))
       \<and> c_country (merge_customer now a r) = (if trim (u_country a) = [] then c_country r else Some (trim (u_country a)))
       \<and> c_postal_code (merge_customer now a r) = (if trim (u_postal_code a) = [] then c_postal_code r else Some (trim (u_postal_code a)))
       \<and> c_notes (merge_customer now a r) = (if trim (u_notes a) = [] then c_notes r else Some (trim (u_notes a)))
       \<and> c_last_contact_at (merge_customer now a r) = (if trim (u_last_contact_at a) = [] then c_last_contact_at r else Some (trim (u_last_contact_at a))))"
proof (intro conjI impI allI)
  let ?e = "trim (u_email a)" and ?n = "trim (u_name a)"
  {
    assume h: "?e \<noteq> [] \<and> (\<exists>y \<in> set (customers db). c_email y = Some ?e)"
    then obtain x where x: "find (\<lambda>r. c_email r = Some ?e) (customers db) = Some x"
      "x \<in> set (customers db)" "c_email x = Some ?e"
      using find_email_Some[of "customers db" "\<lambda>r. c_email r = Some ?e"] by blast
    have "find_customer ?n ?e (customers db) = Some (customer_id x)"
      using h x(1) by (intro find_customer_by_email) simp_all
    then have "upsert_customer now a db =
        (Some (customer_id x),
         db\<lparr> customers := map (\<lambda>r. if customer_id r = customer_id x
                                   then merge_customer now a r else r) (customers db) \<rparr>)"
      using assms by (simp add: upsert_customer_def)
    with x show "\<exists>x. find (\<lambda>r. c_email r = Some ?e) (customers db) = Some x
                 \<and> x \<in> set (customers db) \<and> c_email x = Some ?e
                 \<and> upsert_customer now a db =
                     (Some (customer_id x),
                      db\<lparr> customers := map (\<lambda>r. if customer_id r = customer_id x
                                                then merge_customer now a r else r)
                                          (customers db) \<rparr>)"
      by blast
  }
  {
    assume h: "\<not> (?e \<noteq> [] \<and> (\<exists>y \<in> set (customers db). c_email y = Some ?e))
            \<and> (\<exists>y \<in> set (customers db). c_name y = ?n)"
    then have noemail: "?e = [] \<or> find (\<lambda>r. c_email r = Some ?e) (customers db) = None"
      by (auto simp: find_None_iff')
    from h obtain x where x: "find (\<lambda>r. c_name r = ?n) (customers db) = Some x"
      "x \<in> set (customers db)" "c_name x = ?n"
      using find_email_Some[of "customers db" "\<lambda>r. c_name r = ?n"] by blast
    have "find_customer ?n ?e (customers db) = Some (customer_id x)"
      using noemail x(1) by (rule find_customer_by_name)
    then have "upsert_customer now a db =
        (Some (customer_id x),
         db\<lparr> customers := map (\<lambda>r. if customer_id r = customer_id x
                                   then merge_customer now a r else r) (customers db) \<rparr>)"
      using assms by (simp add: upsert_customer_def)
    with x show "\<exists>x. find (\<lambda>r. c_name r = ?n) (customers db) = Some x
                 \<and> x \<in> set (customers db) \<and> c_name x = ?n
                 \<and> upsert_customer now a db =
                     (Some (customer_id x),
                      db\<lparr> customers := map (\<lambda>r. if customer_id r = customer_id x
                                                then merge_customer now a r else r)
                                          (customers db) \<rparr>)"
      by blast
  }
  {
    assume h: "\<not> (?e \<noteq> [] \<and> (\<exists>y \<in> set (customers db). c_email y = Some ?e))
            \<and> \<not> (\<exists>y \<in> set (customers db). c_name y = ?n)"
    then have noemail: "?e = [] \<or> find (\<lambda>r. c_email r = Some ?e) (customers db) = None"
      and noname: "find (\<lambda>r. c_name r = ?n) (customers db) = None"
      by (auto simp: find_None_iff')
    have "find_customer ?n ?e (customers db) = None"
      using noemail noname by (rule find_customer_none)
    then show "upsert_customer now a db = (Some (next_customer_id db), insert_customer now a db)"
      using assms by (simp add: upsert_customer_def)
    show "next_customer_id db \<notin> customer_id ` set (customers db)"
      by (rule next_customer_id_fresh)
    show "butlast (customers (insert_customer now a db)) = customers db"
      by (simp add: insert_customer_def)
    show "customer_id (last (customers (insert_customer now a db))) = next_customer_id db"
      by (simp add: insert_customer_def)
    show "c_name (last (customers (insert_customer now a db))) = ?n"
      by (simp add: insert_customer_def)
  }
qed (simp_all add: merge_customer_fields)

lemmas customer_eval = upsert_customer_def find_customer_def merge_customer_def
  insert_customer_def next_customer_id_def coalesce_nullif_def trim_def strip_def
  py_isspace_def upsert_args_def two_customers_def

theorem C3_upsert_resolution_witness:
  "trim (u_name (upsert_args ''Robert'' '' bob@example.com'' [])) \<noteq> []
 \<and> map (\<lambda>r. (customer_id r, c_name r, c_email r, c_phone r)) (customers two_customers)
     = [(1, ''Ann'', Some ''ann@example.com'', Some []),
        (2, ''Bob'', Some ''bob@example.com'', Some ''555-0101'')]
 \<and> fst (upsert_customer ''2024-02-01 10:00:00''
          (upsert_args ''Robert'' '' bob@example.com'' []) two_customers) = Some 2
 \<and> map (\<lambda>r. (customer_id r, c_name r, c_email r, c_phone r))
      (customers (snd (upsert_customer ''2024-02-01 10:00:00''
          (upsert_args ''Robert'' '' bob@example.com'' []) two_customers)))
     = [(1, ''Ann'', Some ''ann@example.com'', Some []),
        (2, ''Robert'', Some ''bob@example.com'', Some ''555-0101'')]
 \<and> fst (upsert_customer ''2024-02-01 10:00:00''
          (upsert_args ''Ann'' ''new@example.com'' ''555-0199'') two_customers) = Some 1
 \<and> map (\<lambda>r. (customer_id r, c_name r, c_email r, c_phone r))
      (customers (snd (upsert_customer ''2024-02-01 10:00:00''
          (upsert_args ''Ann'' ''new@example.com'' ''555-0199'') two_customers)))
     = [(1, ''Ann'', Some ''new@example.com'', Some ''555-0199''),
        (2, ''Bob'', Some ''bob@example.com'', Some ''555-0101'')]
 \<and> fst (upsert_customer ''2024-02-01 10:00:00''
          (upsert_args ''Cy'' [] []) two_customers) = Some 3
 \<and> map (\<lambda>r. (customer_id r, c_name r, c_email r, c_phone r))
      (customers (snd (upsert_customer ''2024-02-01 10:00:00''
          (upsert_args ''Cy'' [] []) two_customers)))
     = [(1, ''Ann'', Some ''ann@example.com'', Some []),
        (2, ''Bob'', Some ''bob@example.com'', Some ''555-0101''),
        (3, ''Cy'', Some [], Some [])]"
proof -
  have n1: "trim (u_name (upsert_args ''Robert'' '' bob@example.com'' [])) \<noteq> []"
    by (simp add: customer_eval)
  have n2: "trim (u_name (upsert_args ''Ann'' ''new@example.com'' ''555-0199'')) \<noteq> []"
    by (simp add: customer_eval)
  have n3: "trim (u_name (upsert_args ''Cy'' [] [])) \<noteq> []"
    by (simp add: customer_eval)
  show ?thesis
    using n1
      C3_upsert_resolution[OF n1, of two_customers "''2024-02-01 10:00:00''", THEN conjunct1]
      C3_upsert_resolution[OF n2, of two_customers "''2024-02-01 10:00:00''",
        THEN conjunct2, THEN conjunct1]
      C3_upsert_resolution[OF n3, of two_customers "''2024-02-01 10:00:00''",
        THEN conjunct2, THEN conjunct2, THEN conjunct1]
    by (simp add: customer_eval)
qed

section \<open>Properties of the product catalog\<close>

subsection \<open>Update\<close>

lemmas catalog_eval = fresh_catalog_def ProductDB_init_def ensure_data_files_def seed_if_empty_def
  sample_csv_rows_def get_either_def seed_row_def insert_product_def next_product_id_def
  strip_def py_isspace_def decimal_literal_def digit_of_def samples_def

lemma get_col_set_col:
  "get_col k (set_col (k', v) r) =
     (if k = k' \<and> (k' \<in> set allowed \<or> k' = ''updated_at'') then v else get_col k r)"
  by (simp add: get_col_def set_col_def allowed_def Let_def)

lemma set_col_keeps [simp]:
  "product_id (set_col kv r) = product_id r" "p_created_at (set_col kv r) = p_created_at r"
  by (simp_all add: set_col_def Let_def)

lemma fold_set_col_keeps [simp]:
  "product_id (fold set_col as r) = product_id r"
  "p_created_at (fold set_col as r) = p_created_at r"
  by (induction as arbitrary: r) simp_all

lemma fold_set_col_other:
  "k \<notin> fst ` set as \<Longrightarrow> get_col k (fold set_col as r) = get_col k r"
proof (induction as arbitrary: r)
  case Nil
  then show ?case by simp
next
  case (Cons kv as)
  obtain k' v where kv: "kv = (k', v)" by (cases kv)
  have "get_col k (fold set_col as (set_col kv r)) = get_col k (set_col kv r)"
    using Cons by simp
  also have "\<dots> = get_col k r" using Cons.prems kv by (simp add: get_col_set_col)
  finally show ?case by simp
qed

lemma fold_set_col_assigned:
  assumes "distinct (map fst as)" "(k, v) \<in> set as" "k \<in> set allowed \<or> k = ''updated_at''"
  shows "get_col k (fold set_col as r) = v"
  using assms
proof (induction as arbitrary: r)
  case Nil
  then show ?case by simp
next
  case (Cons kv as)
  show ?case
  proof (cases "kv = (k, v)")
    case True
    then have "k \<notin> fst ` set as" using Cons.prems(1) by auto
    then have "get_col k (fold set_col as (set_col kv r)) = get_col k (set_col kv r)"
      by (rule fold_set_col_other)
    then show ?thesis using True Cons.prems(3) by (simp add: get_col_set_col)
  next
    case False
    then have "(k, v) \<in> set as" using Cons.prems(2) by simp
    then show ?thesis using Cons.IH[of "set_col kv r"] Cons.prems by simp
  qed
qed

lemma update_product_no_field:
  "filter (\<lambda>kv. fst kv \<in> set allowed) fm = [] \<Longrightarrow> update_product pid fm now db = (Inr False, db)"
  by (simp add: update_product_def)

lemma update_product_rejected:
  assumes "filter (\<lambda>kv. fst kv \<in> set allowed) fm \<noteq> []"
    "list_ex (\<lambda>r. product_id r = pid) (products db)"
    "list_ex (\<lambda>kv. fst kv \<in> set not_null_columns \<and> snd kv = SqlNull)
       (filter (\<lambda>kv. fst kv \<in> set allowed) fm)"
  shows "update_product pid fm now db = (Inl IntegrityError, db)"
  using assms by (simp add: update_product_def Let_def)

lemma update_product_applied:
  assumes "filter (\<lambda>kv. fst kv \<in> set allowed) fm \<noteq> []"
    "\<not> (list_ex (\<lambda>r. product_id r = pid) (products db)
       \<and> list_ex (\<lambda>kv. fst kv \<in> set not_null_columns \<and> snd kv = SqlNull)
           (filter (\<lambda>kv. fst kv \<in> set allowed) fm))"
  shows "update_product pid fm now db =
     (Inr True,
      db\<lparr> products :=
        map (\<lambda>r. if product_id r = pid
                 then fold set_col (filter (\<lambda>kv. fst kv \<in> set allowed) fm
                                     @ [(''updated_at'', SqlText now)]) r
                 else r) (products db) \<rparr>)"
  using assms by (simp add: update_product_def Let_def)

lemma update_product_no_row:
  assumes "filter (\<lambda>kv. fst kv \<in> set allowed) fm \<noteq> []"
    "\<not> list_ex (\<lambda>r. product_id r = pid) (products db)"
  shows "update_product pid fm now db = (Inr True, db)"
proof -
  have "map (\<lambda>r. if product_id r = pid
                 then fold set_col (filter (\<lambda>kv. fst kv \<in> set allowed) fm
                                     @ [(''updated_at'', SqlText now)]) r
                 else r) (products db) = products db"
    using assms(2) by (intro map_idI) (auto simp: list_ex_iff)
  then show ?thesis
    using update_product_applied[OF assms(1), of pid db now] assms(2) by simp
qed

lemma not_null_subset_allowed: "set not_null_columns \<subseteq> set allowed"
  by (simp add: not_null_columns_def allowed_def)

lemma updated_row:
  fixes fm now r
  defines "r' \<equiv> fold set_col (filter (\<lambda>kv. fst kv \<in> set allowed) fm
                                     @ [(''updated_at'', SqlText now)]) r"
  shows "product_id r' = product_id r" "p_created_at r' = p_created_at r"
    "p_updated_at r' = SqlText now"
    "k \<in> set allowed \<Longrightarrow> k \<notin> fst ` set fm \<Longrightarrow> get_col k r' = get_col k r"
    "distinct (map fst fm) \<Longrightarrow> (k, v) \<in> set fm \<Longrightarrow> k \<in> set allowed \<Longrightarrow> get_col k r' = v"
proof -
  let ?as = "filter (\<lambda>kv. fst kv \<in> set allowed) fm @ [(''updated_at'', SqlText now)]"
  show "product_id r' = product_id r" "p_created_at r' = p_created_at r"
    unfolding r'_def by simp_all
  have "p_updated_at r' = get_col ''updated_at'' r'" by (simp add: get_col_def)
  also have "\<dots> = SqlText now"
    unfolding r'_def by (simp add: get_col_set_col)
  finally show "p_updated_at r' = SqlText now" .
  have ua: "''updated_at'' \<notin> set allowed" by (simp add: allowed_def)
  {
    assume k: "k \<in> set allowed" "k \<notin> fst ` set fm"
    then have "k \<notin> fst ` set ?as" using ua by auto
    then show "get_col k r' = get_col k r" unfolding r'_def by (rule fold_set_col_other)
  }
  {
    assume d: "distinct (map fst fm)" and kv: "(k, v) \<in> set fm" and k: "k \<in> set allowed"
    have "distinct (map fst ?as)"
      using d ua by (auto simp: distinct_map_filter)
    moreover have "(k, v) \<in> set ?as" using kv k by simp
    ultimately show "get_col k r' = v"
      unfolding r'_def using k by (intro fold_set_col_assigned) simp_all
  }
qed

text \<open>
  Claim C9, as the code has it. \<open>update_product\<close> returns \<open>False\<close> exactly when the
  mapping holds no recognized field, and then changes nothing. With a recognized field
  and no row of that identity it returns \<open>True\<close> and changes nothing. With a recognized
  field and no \<open>NULL\<close> supplied for \<open>name\<close>, \<open>price\<close> or \<open>active\<close> it returns \<open>True\<close>,
  whether or not the row exists, and the row of that identity (if any) gets the
  recognized fields assigned and \<open>updated_at\<close> set to the current time: its identity
  and \<open>created_at\<close> stay, a recognized column that is not supplied stays, and a supplied
  one takes the supplied value. With a \<open>NULL\<close> supplied for \<open>name\<close>, \<open>price\<close> or
  \<open>active\<close> and a row of that identity present, the \<open>NOT NULL\<close> constraint rejects the
  statement: the call raises and the table is unchanged.
\<close>

theorem C9_update_product:
  "(fst (update_product pid fm now db) = Inr False
      \<longleftrightarrow> filter (\<lambda>kv. fst kv \<in> set allowed) fm = [])
 \<and> (filter (\<lambda>kv. fst kv \<in> set allowed) fm = []
      \<longrightarrow> update_product pid fm now db = (Inr False, db))
 \<and> (filter (\<lambda>kv. fst kv \<in> set allowed) fm \<noteq> []
      \<and> \<not> list_ex (\<lambda>r. product_id r = pid) (products db)
      \<longrightarrow> update_product pid fm now db = (Inr True, db))
 \<and> (filter (\<lambda>kv. fst kv \<in> set allowed) fm \<noteq> []
      \<and> \<not> list_ex (\<lambda>kv. fst kv \<in> set not_null_columns \<and> snd kv = SqlNull) fm
      \<longrightarrow> update_product pid fm now db =
           (Inr True,
            db\<lparr> products :=
              map (\<lambda>r. if product_id r = pid
                       then fold set_col (filter (\<lambda>kv. fst kv \<in> set allowed) fm
                                           @ [(''updated_at'', SqlText now)]) r
                       else r) (products db) \<rparr>))
 \<and> (filter (\<lambda>kv. fst kv \<in> set allowed) fm \<noteq> []
      \<and> list_ex (\<lambda>r. product_id r = pid) (products db)
      \<and> list_ex (\<lambda>kv. fst kv \<in> set not_null_columns \<and> snd kv = SqlNull) fm
      \<longrightarrow> update_product pid fm now db = (Inl IntegrityError, db))
 \<and> (\<forall>r. product_id (fold set_col (filter (\<lambda>kv. fst kv \<in> set allowed) fm
                                     @ [(''updated_at'', SqlText now)]) r) = product_id r
      \<and> p_created_at (fold set_col (filter (\<lambda>kv. fst kv \<in> set allowed) fm
                                     @ [(''updated_at'', SqlText now)]) r) = p_created_at r
      \<and> p_updated_at (fold set_col (filter (\<lambda>kv. fst kv \<in> set allowed) fm
                                     @ [(''updated_at'', SqlText now)]) r) = SqlText now
      \<and> (\<forall>k \<in> set allowed. k \<notin> fst ` set fm \<longrightarrow>
            get_col k (fold set_col (filter (\<lambda>kv. fst kv \<in> set allowed) fm
                                     @ [(''updated_at'', SqlText now)]) r) = get_col k r)
      \<and> (distinct (map fst fm) \<longrightarrow>
            (\<forall>kv \<in> set fm. fst kv \<in> set allowed \<longrightarrow>
               get_col (fst kv) (fold set_col (filter (\<lambda>kv. fst kv \<in> set allowed) fm
                                     @ [(''updated_at'', SqlText now)]) r) = snd kv)))"
proof -
  let ?ups = "filter (\<lambda>kv. fst kv \<in> set allowed) fm"
  let ?null = "\<lambda>kv. fst kv \<in> set not_null_columns \<and> snd kv = SqlNull"
  have nul: "list_ex ?null ?ups \<longleftrightarrow> list_ex ?null fm"
  proof
    assume "list_ex ?null ?ups"
    then obtain kv where "kv \<in> set ?ups" "?null kv" unfolding list_ex_iff by blast
    then have "kv \<in> set fm" "?null kv" by simp_all
    then show "list_ex ?null fm" unfolding list_ex_iff by blast
  next
    assume "list_ex ?null fm"
    then obtain kv where kv: "kv \<in> set fm" "?null kv" unfolding list_ex_iff by blast
    then have "kv \<in> set ?ups" using not_null_subset_allowed by auto
    with kv(2) show "list_ex ?null ?ups" unfolding list_ex_iff by blast
  qed
  have 1: "fst (update_product pid fm now db) = Inr False \<longleftrightarrow> ?ups = []"
    by (auto simp: update_product_def Let_def)
  have 2: "?ups = [] \<longrightarrow> update_product pid fm now db = (Inr False, db)"
    by (simp add: update_product_no_field)
  have 3: "?ups \<noteq> [] \<and> \<not> list_ex (\<lambda>r. product_id r = pid) (products db)
      \<longrightarrow> update_product pid fm now db = (Inr True, db)"
    by (simp add: update_product_no_row)
  have 4: "?ups \<noteq> [] \<and> \<not> list_ex ?null fm
      \<longrightarrow> update_product pid fm now db =
           (Inr True,
            db\<lparr> products :=
              map (\<lambda>r. if product_id r = pid
                       then fold set_col (?ups @ [(''updated_at'', SqlText now)]) r
                       else r) (products db) \<rparr>)"
    using nul update_product_applied[of fm pid db now] by blast
  have 5: "?ups \<noteq> [] \<and> list_ex (\<lambda>r. product_id r = pid) (products db) \<and> list_ex ?null fm
      \<longrightarrow> update_product pid fm now db = (Inl IntegrityError, db)"
    using nul update_product_rejected[of fm pid db now] by blast
  have 6: "\<forall>r. product_id (fold set_col (?ups @ [(''updated_at'', SqlText now)]) r) = product_id r
      \<and> p_created_at (fold set_col (?ups @ [(''updated_at'', SqlText now)]) r) = p_created_at r
      \<and> p_updated_at (fold set_col (?ups @ [(''updated_at'', SqlText now)]) r) = SqlText now
      \<and> (\<forall>k \<in> set allowed. k \<notin> fst ` set fm \<longrightarrow>
            get_col k (fold set_col (?ups @ [(''updated_at'', SqlText now)]) r) = get_col k r)
      \<and> (distinct (map fst fm) \<longrightarrow>
            (\<forall>kv \<in> set fm. fst kv \<in> set allowed \<longrightarrow>
               get_col (fst kv) (fold set_col (?ups @ [(''updated_at'', SqlText now)]) r) = snd kv))"
  proof (intro allI conjI ballI impI)
    fix r kv
    assume "distinct (map fst fm)" "kv \<in> set fm" "fst kv \<in> set allowed"
    then show "get_col (fst kv) (fold set_col (?ups @ [(''updated_at'', SqlText now)]) r) = snd kv"
      using updated_row(5)[of fm "fst kv" "snd kv" now r] by simp
  next
    fix r k
    assume "k \<in> set allowed" "k \<notin> fst ` set fm"
    then show "get_col k (fold set_col (?ups @ [(''updated_at'', SqlText now)]) r) = get_col k r"
      by (rule updated_row(4))
  qed (simp_all only: updated_row)
  show ?thesis using 1 2 3 4 5 6 by (intro conjI)
qed

lemmas update_eval = update_product_def allowed_def not_null_columns_def set_col_def

theorem C9_update_product_witness:
  "update_product 2 [(''colour'', SqlText ''red'')] ''2024-03-01 12:00:00'' fresh_catalog
     = (Inr False, fresh_catalog)
 \<and> fst (update_product 2 [(''price'', SqlReal 5), (''colour'', SqlText ''red'')]
          ''2024-03-01 12:00:00'' fresh_catalog) = Inr True
 \<and> map (\<lambda>r. (product_id r, p_name r, p_price r, p_updated_at r))
      (products (snd (update_product 2 [(''price'', SqlReal 5), (''colour'', SqlText ''red'')]
          ''2024-03-01 12:00:00'' fresh_catalog)))
     = [(1, SqlText ''CRM Pro'', SqlReal 99, SqlText ''2024-01-01 09:00:00''),
        (2, SqlText ''Analytics Suite'', SqlReal 5, SqlText ''2024-03-01 12:00:00''),
        (3, SqlText ''Marketing Tool'', SqlReal 79, SqlText ''2024-01-01 09:00:00'')]
 \<and> update_product 99 [(''active'', SqlInt 0)] ''2024-03-01 12:00:00'' fresh_catalog
     = (Inr True, fresh_catalog)
 \<and> update_product 1 [(''name'', SqlNull)] ''2024-03-01 12:00:00'' fresh_catalog
     = (Inl IntegrityError, fresh_catalog)"
proof -
  let ?now = "''2024-03-01 12:00:00''"
  note c = C9_update_product[of _ _ ?now fresh_catalog]
  have a: "update_product 2 [(''colour'', SqlText ''red'')] ?now fresh_catalog
     = (Inr False, fresh_catalog)"
    using c[of 2 "[(''colour'', SqlText ''red'')]", THEN conjunct2, THEN conjunct1]
    by (simp add: allowed_def)
  have b: "update_product 2 [(''price'', SqlReal 5), (''colour'', SqlText ''red'')] ?now fresh_catalog
     = (Inr True, fresh_catalog\<lparr> products :=
              map (\<lambda>r. if product_id r = 2
                       then fold set_col (filter (\<lambda>kv. fst kv \<in> set allowed)
                              [(''price'', SqlReal 5), (''colour'', SqlText ''red'')]
                                           @ [(''updated_at'', SqlText ?now)]) r
                       else r) (products fresh_catalog) \<rparr>)"
    using c[of 2 "[(''price'', SqlReal 5), (''colour'', SqlText ''red'')]",
        THEN conjunct2, THEN conjunct2, THEN conjunct2, THEN conjunct1]
    by (simp add: allowed_def not_null_columns_def)
  have d: "update_product 99 [(''active'', SqlInt 0)] ?now fresh_catalog = (Inr True, fresh_catalog)"
    using c[of 99 "[(''active'', SqlInt 0)]", THEN conjunct2, THEN conjunct2, THEN conjunct1]
    by (simp add: allowed_def catalog_eval)
  have e: "update_product 1 [(''name'', SqlNull)] ?now fresh_catalog
     = (Inl IntegrityError, fresh_catalog)"
    using c[of 1 "[(''name'', SqlNull)]", THEN conjunct2, THEN conjunct2, THEN conjunct2,
        THEN conjunct2, THEN conjunct1]
    by (simp add: allowed_def not_null_columns_def catalog_eval)
  show ?thesis
    unfolding a b d e by (simp add: catalog_eval allowed_def set_col_def)
qed

text \<open>
  The claim as worded (\<open>True\<close> whenever a recognized field is supplied, regardless of
  whether the row exists) fails for \<open>update_product(1, name=None)\<close> on the seeded
  catalog: product 1 exists and the call raises, while the same call for the absent
  product 99 returns \<open>True\<close>.
\<close>

theorem C9_update_product_counterexample:
  "map product_id (products fresh_catalog) = [1, 2, 3]
 \<and> filter (\<lambda>kv. fst kv \<in> set allowed) [(''name'', SqlNull)] = [(''name'', SqlNull)]
 \<and> fst (update_product 1 [(''name'', SqlNull)] ''2024-03-01 12:00:00'' fresh_catalog)
     = Inl IntegrityError
 \<and> fst (update_product 99 [(''name'', SqlNull)] ''2024-03-01 12:00:00'' fresh_catalog)
     = Inr True"
  by (simp add: catalog_eval update_eval)

subsection \<open>Seeding\<close>

lemma seed_if_empty_nonempty:
  "products db \<noteq> [] \<Longrightarrow> seed_if_empty pf now file db = db"
  by (simp add: seed_if_empty_def)

lemma sample_names_strip:
  "strip ''CRM Pro'' = ''CRM Pro''" "strip ''Analytics Suite'' = ''Analytics Suite''"
  "strip ''Marketing Tool'' = ''Marketing Tool''"
  by (simp_all add: strip_def py_isspace_def)

lemma seed_from_sample_csv:
  assumes "pf ''99'' = Some 99" "pf ''149'' = Some 149" "pf ''79'' = Some 79"
    and "products db = []"
  shows "seed_from_csv pf now sample_csv_rows (db, False) =
     (\<lparr> products =
         [(seed_row now ''CRM Pro'' [] [] (SqlReal 99)
             ''Contact management, email tracking, basic reporting'' ''Small teams'')
            \<lparr> product_id := max (products_seq db) 0 + 1 \<rparr>,
          (seed_row now ''Analytics Suite'' [] [] (SqlReal 149)
             ''Dashboards, predictive insights, custom reports'' ''Data teams'')
            \<lparr> product_id := max (products_seq db) 0 + 2 \<rparr>,
          (seed_row now ''Marketing Tool'' [] [] (SqlReal 79)
             ''Email campaigns, social scheduling, A/B testing'' ''Marketing teams'')
            \<lparr> product_id := max (products_seq db) 0 + 3 \<rparr>],
        products_seq = max (products_seq db) 0 + 3 \<rparr>, True)"
  using assms
  by (simp add: sample_csv_rows_def get_either_def sample_names_strip insert_product_def
      next_product_id_def Let_def)

text \<open>
  Claim C5. Let \<open>float\<close> read the three sample prices. If the products table is empty and
  there is no products seed file when \<open>ProductDB\<close> is constructed, then afterwards the table
  holds exactly three products, all with \<open>active = 1\<close>, whose names, features and
  best-for texts are those of the built-in sample set; they are read back from the seed
  file that \<open>ensure_data_files\<close> has just written, so their prices are 99, 149 and 79 and
  their SKUs are empty. If the table holds any row at construction, seeding leaves it
  unchanged, whatever the seed file is.
\<close>

theorem C5_seed_if_empty:
  assumes "pf ''99'' = Some 99" "pf ''149'' = Some 149" "pf ''79'' = Some 79"
  shows "(products db = [] \<longrightarrow>
            fst (ProductDB_init pf now None db) = Some (Rows sample_csv_rows)
          \<and> length (products (snd (ProductDB_init pf now None db))) = 3
          \<and> (\<forall>r \<in> set (products (snd (ProductDB_init pf now None db))). p_active r = SqlInt 1)
          \<and> map (\<lambda>r. (p_name r, p_features r, p_best_for r))
               (products (snd (ProductDB_init pf now None db)))
             = map (\<lambda>r. (p_name r, p_features r, p_best_for r)) (samples now)
          \<and> map p_price (products (snd (ProductDB_init pf now None db)))
             = [SqlReal 99, SqlReal 149, SqlReal 79]
          \<and> map p_sku (products (snd (ProductDB_init pf now None db)))
             = [SqlText [], SqlText [], SqlText []])
       \<and> (products db \<noteq> [] \<longrightarrow> snd (ProductDB_init pf now file db) = db)"
proof (intro conjI impI)
  assume e: "products db = []"
  have init: "ProductDB_init pf now None db =
      (Some (Rows sample_csv_rows), fst (seed_from_csv pf now sample_csv_rows (db, False)))"
    using e seed_from_sample_csv[OF assms e, of now]
    by (simp add: ProductDB_init_def ensure_data_files_def seed_if_empty_def)
  note r = init seed_from_sample_csv[OF assms e, of now]
  show "fst (ProductDB_init pf now None db) = Some (Rows sample_csv_rows)"
    by (simp add: r)
  show "length (products (snd (ProductDB_init pf now None db))) = 3"
    by (simp add: r)
  show "\<forall>r \<in> set (products (snd (ProductDB_init pf now None db))). p_active r = SqlInt 1"
    by (simp add: r seed_row_def)
  show "map (\<lambda>r. (p_name r, p_features r, p_best_for r))
               (products (snd (ProductDB_init pf now None db)))
             = map (\<lambda>r. (p_name r, p_features r, p_best_for r)) (samples now)"
    by (simp add: r seed_row_def samples_def)
  show "map p_price (products (snd (ProductDB_init pf now None db)))
             = [SqlReal 99, SqlReal 149, SqlReal 79]"
    by (simp add: r seed_row_def)
  show "map p_sku (products (snd (ProductDB_init pf now None db)))
             = [SqlText [], SqlText [], SqlText []]"
    by (simp add: r seed_row_def)
next
  assume "products db \<noteq> []"
  then show "snd (ProductDB_init pf now file db) = db"
    by (simp add: ProductDB_init_def seed_if_empty_nonempty)
qed

theorem C5_seed_if_empty_witness:
  "decimal_literal ''99'' = Some 99 \<and> decimal_literal ''149'' = Some 149
 \<and> decimal_literal ''79'' = Some 79
 \<and> map (\<lambda>r. (product_id r, p_name r, p_price r, p_active r))
      (products (snd (ProductDB_init decimal_literal ''2024-01-01 09:00:00'' None
                        \<lparr> products = [], products_seq = 0 \<rparr>)))
     = [(1, SqlText ''CRM Pro'', SqlReal 99, SqlInt 1),
        (2, SqlText ''Analytics Suite'', SqlReal 149, SqlInt 1),
        (3, SqlText ''Marketing Tool'', SqlReal 79, SqlInt 1)]
 \<and> products fresh_catalog \<noteq> []
 \<and> snd (ProductDB_init decimal_literal ''2024-06-01 09:00:00''
           (Some (Rows [[(''name'', ''Helpdesk''), (''price'', ''19'')]])) fresh_catalog)
     = fresh_catalog"
proof -
  have p: "decimal_literal ''99'' = Some 99" "decimal_literal ''149'' = Some 149"
    "decimal_literal ''79'' = Some 79"
    by (simp_all add: decimal_literal_def digit_of_def)
  have ne: "products fresh_catalog \<noteq> []" by (simp add: catalog_eval)
  have "snd (ProductDB_init decimal_literal ''2024-06-01 09:00:00''
           (Some (Rows [[(''name'', ''Helpdesk''), (''price'', ''19'')]])) fresh_catalog)
     = fresh_catalog"
    using C5_seed_if_empty[OF p, THEN conjunct2, rule_format, OF ne] .
  moreover have "map (\<lambda>r. (product_id r, p_name r, p_price r, p_active r))
      (products (snd (ProductDB_init decimal_literal ''2024-01-01 09:00:00'' None
                        \<lparr> products = [], products_seq = 0 \<rparr>)))
     = [(1, SqlText ''CRM Pro'', SqlReal 99, SqlInt 1),
        (2, SqlText ''Analytics Suite'', SqlReal 149, SqlInt 1),
        (3, SqlText ''Marketing Tool'', SqlReal 79, SqlInt 1)]"
    using C5_seed_if_empty[OF p, of "\<lparr> products = [], products_seq = 0 \<rparr>"
        "''2024-01-01 09:00:00''", THEN conjunct1]
    by (simp add: catalog_eval)
  ultimately show ?thesis using p ne by simp
qed

section \<open>Properties of the revenue trend\<close>

text \<open>
  When the day SQLite takes for today is the day of the clock that stamps the purchases,
  so that no purchase is dated after it, \<open>get_sales_trend\<close> is the trend of the
  specification: one entry per day of the window that has a purchase, with the summed
  \<open>COALESCE(total, amount, 0)\<close> of that day, days without purchases omitted, in day order.
\<close>

lemma set_map_filter_date:
  "set (List.map_filter (\<lambda>r. sql_date (timestamp r)) rows)
     = {d. \<exists>r \<in> set rows. sql_date (timestamp r) = Some d}"
  by (induction rows) (auto simp: List.map_filter_simps split: option.splits)

lemma filter_day_of_selected:
  "cutoff \<le> d \<Longrightarrow>
   filter (\<lambda>r. sql_date (timestamp r) = Some d)
     (filter (\<lambda>r. case sql_date (timestamp r) of None \<Rightarrow> False | Some x \<Rightarrow> cutoff \<le> x) rows)
   = filter (\<lambda>r. sql_date (timestamp r) = Some d) rows"
  by (induction rows) auto

lemma get_sales_trend_meets_spec:
  assumes "0 < days"
    and "\<And>r d. r \<in> set (purchases db) \<Longrightarrow> sql_date (timestamp r) = Some d \<Longrightarrow> d \<le> today"
  shows "get_sales_trend today days db = trend_spec today days db"
proof -
  let ?cut = "today - (days - 1)"
  let ?date = "\<lambda>r. sql_date (timestamp r)"
  let ?sel = "filter (\<lambda>r. case ?date r of None \<Rightarrow> False | Some x \<Rightarrow> ?cut \<le> x) (purchases db)"
  let ?on = "\<lambda>d. filter (\<lambda>r. ?date r = Some d) (purchases db)"
  let ?g = "sort (remdups (List.map_filter ?date ?sel))"
  let ?w = "filter (\<lambda>d. ?on d \<noteq> []) [?cut..today]"
  have set_g: "set ?g = {d. ?cut \<le> d \<and> (\<exists>r \<in> set (purchases db). ?date r = Some d)}"
    by (auto simp: set_map_filter_date split: option.splits)
  have set_w: "set ?w = {d. ?cut \<le> d \<and> d \<le> today \<and> (\<exists>r \<in> set (purchases db). ?date r = Some d)}"
    by (auto simp: filter_empty_conv)
  have "set ?g = set ?w" unfolding set_g set_w using assms(2) by blast
  moreover have "sorted ?g" "distinct ?g" by simp_all
  moreover have "sorted ?w" "distinct ?w" by (simp_all add: sorted_wrt_filter)
  ultimately have days_eq: "?g = ?w" by (intro sorted_distinct_set_unique)
  have entry: "or_zero (sql_sum (map coalesce_total (filter (\<lambda>r. ?date r = Some d) ?sel)))
       = sum_list (map coalesce_total (?on d))" if "d \<in> set ?w" for d
  proof -
    from that have c: "?cut \<le> d" and ne: "?on d \<noteq> []" by auto
    have "filter (\<lambda>r. ?date r = Some d) ?sel = ?on d"
      using c by (rule filter_day_of_selected)
    then show ?thesis
      using ne by (simp only: sql_sum_def or_zero_def) simp
  qed
  have "get_sales_trend today days db
      = map (\<lambda>d. (d, or_zero (sql_sum (map coalesce_total (filter (\<lambda>r. ?date r = Some d) ?sel))))) ?g"
    using assms(1) by (simp add: get_sales_trend_def Let_def)
  also have "\<dots> = map (\<lambda>d. (d, sum_list (map coalesce_total (?on d)))) ?w"
    unfolding days_eq using entry by (intro map_cong) auto
  also have "\<dots> = trend_spec today days db" by (simp add: trend_spec_def)
  finally show ?thesis .
qed

lemmas trend_eval = get_sales_trend_def trend_spec_def get_daily_summary_def sql_sum_def
  sql_avg_def or_zero_def coalesce_total_def List.map_filter_def evening_ledger_def

text \<open>
  Claim C7 at a concrete state. \<open>date('now')\<close> is the UTC day, while the purchases
  carry local timestamps. On a machine eight hours west of UTC, at 20:00 local time on
  day 100, UTC is already in day 101. The ledger holds a sale of day 94 and one of day
  100, today by the local clock, as \<open>get_daily_summary\<close> for the report's date label
  counts it. The trailing seven days including today are days 94 to 100 and have two
  entries, which is what \<open>get_sales_trend\<close> returns when SQLite's day is 100; with
  SQLite's day 101 it drops day 94, and for \<open>days = 1\<close> it returns nothing although a
  purchase was made today.
\<close>

theorem C7_trend_window_follows_utc:
  "map timestamp (purchases evening_ledger) = [Stamp 94 36000, Stamp 100 72000]
 \<and> count (get_daily_summary 100 evening_ledger) = 1
 \<and> trend_spec 100 7 evening_ledger = [(94, 99), (100, 79)]
 \<and> get_sales_trend 100 7 evening_ledger = [(94, 99), (100, 79)]
 \<and> get_sales_trend 101 7 evening_ledger = [(100, 79)]
 \<and> trend_spec 100 1 evening_ledger = [(100, 79)]
 \<and> get_sales_trend 101 1 evening_ledger = []"
  by (simp add: trend_eval ledger_eval)

end
